theory Spec2Isabelle
  imports Main
begin

section \<open>Tool names (pkg/server/server.go)\<close>

definition ToolConversationsHistory :: string where
  "ToolConversationsHistory = ''conversations_history''"
definition ToolConversationsReplies :: string where
  "ToolConversationsReplies = ''conversations_replies''"
definition ToolConversationsAddMessage :: string where
  "ToolConversationsAddMessage = ''conversations_add_message''"
definition ToolReactionsAdd :: string where
  "ToolReactionsAdd = ''reactions_add''"
definition ToolReactionsRemove :: string where
  "ToolReactionsRemove = ''reactions_remove''"
definition ToolAttachmentGetData :: string where
  "ToolAttachmentGetData = ''attachment_get_data''"
definition ToolConversationsSearchMessages :: string where
  "ToolConversationsSearchMessages = ''conversations_search_messages''"
definition ToolChannelsList :: string where
  "ToolChannelsList = ''channels_list''"
definition ToolUsergroupsList :: string where
  "ToolUsergroupsList = ''usergroups_list''"
definition ToolUsergroupsMe :: string where
  "ToolUsergroupsMe = ''usergroups_me''"
definition ToolUsergroupsCreate :: string where
  "ToolUsergroupsCreate = ''usergroups_create''"
definition ToolUsergroupsUpdate :: string where
  "ToolUsergroupsUpdate = ''usergroups_update''"
definition ToolUsergroupsUsersUpdate :: string where
  "ToolUsergroupsUsersUpdate = ''usergroups_users_update''"
definition ToolSavedList :: string where
  "ToolSavedList = ''saved_list''"
definition ToolSavedComplete :: string where
  "ToolSavedComplete = ''saved_complete''"

definition ValidToolNames :: "string list" where
  "ValidToolNames =
    [ToolConversationsHistory, ToolConversationsReplies, ToolConversationsAddMessage,
     ToolReactionsAdd, ToolReactionsRemove, ToolAttachmentGetData,
     ToolConversationsSearchMessages, ToolChannelsList, ToolUsergroupsList,
     ToolUsergroupsMe, ToolUsergroupsCreate, ToolUsergroupsUpdate,
     ToolUsergroupsUsersUpdate, ToolSavedList, ToolSavedComplete]"

section \<open>Go standard library functions used by the server\<close>

text \<open>Errors are carried by their message (the value of \<open>err.Error()\<close>); a nil error is
  \<open>None\<close>.\<close>

type_synonym error = string

text \<open>The process environment: \<open>os.Getenv\<close> yields the empty string for an unset variable.\<close>

type_synonym environ = "string \<rightharpoonup> string"

definition os_Getenv :: "environ \<Rightarrow> string \<Rightarrow> string" where
  "os_Getenv env key = (case env key of None \<Rightarrow> [] | Some v \<Rightarrow> v)"

fun slices_Contains :: "'a list \<Rightarrow> 'a \<Rightarrow> bool" where
  "slices_Contains [] v = False"
| "slices_Contains (x # xs) v = (x = v \<or> slices_Contains xs v)"

fun strings_Join :: "string list \<Rightarrow> string \<Rightarrow> string" where
  "strings_Join [] sep = []"
| "strings_Join [x] sep = x"
| "strings_Join (x # y # zs) sep = x @ sep @ strings_Join (y # zs) sep"

fun strings_HasPrefix :: "string \<Rightarrow> string \<Rightarrow> bool" where
  "strings_HasPrefix s [] = True"
| "strings_HasPrefix [] (p # ps) = False"
| "strings_HasPrefix (c # s) (p # ps) = (c = p \<and> strings_HasPrefix s ps)"

fun strings_Contains :: "string \<Rightarrow> string \<Rightarrow> bool" where
  "strings_Contains [] substr = (substr = [])"
| "strings_Contains (c # s) substr =
     (strings_HasPrefix (c # s) substr \<or> strings_Contains s substr)"

section \<open>Validation of the enabled-tools list\<close>

text \<open>\<open>validToolSet\<close> is the Go map built by the first loop of \<open>ValidateEnabledTools\<close>; reading
  a missing key of a \<open>map[string]bool\<close> gives \<open>false\<close>.\<close>

definition validToolSet :: "string \<rightharpoonup> bool" where
  "validToolSet = fold (\<lambda>name m. m(name \<mapsto> True)) ValidToolNames Map.empty"

definition map_index_bool :: "(string \<rightharpoonup> bool) \<Rightarrow> string \<Rightarrow> bool" where
  "map_index_bool m k = (case m k of None \<Rightarrow> False | Some b \<Rightarrow> b)"

fun collectInvalidTools :: "string list \<Rightarrow> string list \<Rightarrow> string list" where
  "collectInvalidTools [] invalidTools = invalidTools"
| "collectInvalidTools (tool # tools) invalidTools =
     (if \<not> map_index_bool validToolSet tool
      then collectInvalidTools tools (invalidTools @ [tool])
      else collectInvalidTools tools invalidTools)"

definition ValidateEnabledTools :: "string list \<Rightarrow> error option" where
  "ValidateEnabledTools tools =
     (let invalidTools = collectInvalidTools tools [] in
      if length invalidTools > 0
      then Some (''invalid tool name(s): '' @ strings_Join invalidTools '', ''
                 @ ''. Valid tools are: '' @ strings_Join ValidToolNames '', '')
      else None)"

section \<open>Tool gating\<close>

definition shouldAddTool :: "environ \<Rightarrow> string \<Rightarrow> string list \<Rightarrow> string \<Rightarrow> bool" where
  "shouldAddTool env name enabledTools envVarName =
     (if envVarName = [] then
        (if length enabledTools = 0 then True
         else slices_Contains enabledTools name)
      else if length enabledTools > 0 \<and> slices_Contains enabledTools name then True
      else if length enabledTools = 0 then os_Getenv env envVarName \<noteq> []
      else False)"

section \<open>MCP protocol values\<close>

text \<open>The values of \<open>github.com/mark3labs/mcp-go/mcp\<close> that the handlers and the middleware
  touch: a tool result with its text content and its \<open>isError\<close> flag, and a request with its
  named arguments.\<close>

record CallToolResult =
  Content :: "string list"
  IsError :: bool

definition NewToolResultText :: "string \<Rightarrow> CallToolResult" where
  "NewToolResultText t = \<lparr>Content = [t], IsError = False\<rparr>"

definition NewToolResultError :: "string \<Rightarrow> CallToolResult" where
  "NewToolResultError t = \<lparr>Content = [t], IsError = True\<rparr>"

datatype arg_value = StringArg string | NumberArg int | BoolArg bool

record CallToolRequest =
  Name :: string
  Arguments :: "string \<rightharpoonup> arg_value"

definition GetString :: "CallToolRequest \<Rightarrow> string \<Rightarrow> string \<Rightarrow> string" where
  "GetString request key defaultValue =
     (case Arguments request key of Some (StringArg s) \<Rightarrow> s | _ \<Rightarrow> defaultValue)"

text \<open>A handler returns the Go pair \<open>(*mcp.CallToolResult, error)\<close>; it runs against the
  backend, whose state of type \<open>'b\<close> is passed in and returned.\<close>

type_synonym tool_return = "CallToolResult option \<times> error option"
type_synonym 'b ToolHandlerFunc = "CallToolRequest \<Rightarrow> 'b \<Rightarrow> tool_return \<times> 'b"

text \<open>A function of the Go type \<open>server.ToolHandlerFunc\<close> in general may also panic instead of
  returning; \<open>Panic\<close> carries the panic value as \<open>%v\<close> prints it. \<open>returning\<close> is a handler that
  always returns, seen as such a function.\<close>

datatype 'a go_call = Panic string | Return 'a

type_synonym 'b ToolCall = "CallToolRequest \<Rightarrow> 'b \<Rightarrow> tool_return go_call \<times> 'b"


section \<open>The Slack backend as seen by the handlers\<close>

text \<open>Fields of \<open>provider.SavedItem\<close> and \<open>slack.Message\<close> that the handlers read; \<open>item.Ts\<close>,
  \<open>item.State\<close>, \<open>item.DateDue\<close>, \<open>msg.User\<close> and \<open>msg.Text\<close> carry a prefix here because
  \<open>SavedItemRow\<close> has fields of the same names.\<close>

record SavedItem =
  ItemID :: string
  ItemTs :: string
  ItemState :: string
  DateCreated :: int
  ItemDateDue :: int

record SavedListResponse =
  SavedItems :: "SavedItem list"
  NextCursor :: string

record Message =
  MsgUser :: string
  MsgText :: string

record GetConversationHistoryResponse =
  Messages :: "Message list"

record GetConversationHistoryParameters =
  ChannelID :: string
  Latest :: string
  Oldest :: string
  Limit :: int
  Inclusive :: bool

record AuthTestResponse =
  URL :: string

record UserRec =
  RealName :: string

record UsersCache =
  Users :: "string \<rightharpoonup> UserRec"

record ChannelRec =
  ChannelRecName :: string

record ChannelsCache =
  Channels :: "string \<rightharpoonup> ChannelRec"

text \<open>The methods of the \<open>SlackAPI\<close> interface called from the code under study. Each call may
  change the backend, so each takes and returns its state.\<close>

record 'b SlackAPI =
  AuthTest :: "'b \<Rightarrow> (error + AuthTestResponse) \<times> 'b"
  SavedListContext :: "string \<Rightarrow> 'b \<Rightarrow> (error + SavedListResponse) \<times> 'b"
  SavedCompleteContext :: "string \<Rightarrow> string \<Rightarrow> 'b \<Rightarrow> error option \<times> 'b"
  GetConversationHistoryContext ::
    "GetConversationHistoryParameters \<Rightarrow> 'b \<Rightarrow> (error + GetConversationHistoryResponse) \<times> 'b"

record 'b ApiProvider =
  Slack :: "'b SlackAPI"
  IsBotToken :: bool
  ProvideChannelsMaps :: "ChannelsCache option"
  ProvideUsersMap :: "UsersCache option"

section \<open>Tool registration (NewMCPServer)\<close>

datatype handler_fn =
    Fn_ConversationsHistoryHandler | Fn_ConversationsRepliesHandler
  | Fn_ConversationsAddMessageHandler | Fn_ReactionsAddHandler | Fn_ReactionsRemoveHandler
  | Fn_FilesGetHandler | Fn_ConversationsSearchHandler | Fn_UsersSearchHandler
  | Fn_ChannelsHandler | Fn_UsergroupsListHandler | Fn_UsergroupsMeHandler
  | Fn_UsergroupsCreateHandler | Fn_UsergroupsUpdateHandler
  | Fn_UsergroupsUsersUpdateHandler | Fn_SavedListHandler | Fn_SavedCompleteHandler

datatype resource_fn = Fn_ChannelsResource | Fn_UsersResource

text \<open>The MCP server keeps its tools and resources in maps keyed by name and URI.\<close>

record MCPServer =
  tools :: "string \<rightharpoonup> handler_fn"
  resources :: "string \<rightharpoonup> resource_fn"

definition server_NewMCPServer :: MCPServer where
  "server_NewMCPServer = \<lparr>tools = Map.empty, resources = Map.empty\<rparr>"

definition AddTool :: "string \<Rightarrow> handler_fn \<Rightarrow> MCPServer \<Rightarrow> MCPServer" where
  "AddTool name h s = s\<lparr>tools := (tools s)(name \<mapsto> h)\<rparr>"

definition AddResource :: "string \<Rightarrow> resource_fn \<Rightarrow> MCPServer \<Rightarrow> MCPServer" where
  "AddResource uri h s = s\<lparr>resources := (resources s)(uri \<mapsto> h)\<rparr>"

text \<open>The statement \<open>if cond { s.AddTool(mcp.NewTool(name, ...), handler) }\<close>.\<close>

definition AddToolIf :: "bool \<Rightarrow> string \<Rightarrow> handler_fn \<Rightarrow> MCPServer \<Rightarrow> MCPServer" where
  "AddToolIf cond name h s = (if cond then AddTool name h s else s)"

text \<open>The registration part of \<open>NewMCPServer\<close>, statement by statement in the order of the
  source.\<close>

definition registerTools :: "environ \<Rightarrow> bool \<Rightarrow> string list \<Rightarrow> MCPServer \<Rightarrow> MCPServer" where
  "registerTools env isBotToken enabledTools s0 =
    (let s = AddToolIf (shouldAddTool env ToolConversationsHistory enabledTools [])
                ToolConversationsHistory Fn_ConversationsHistoryHandler s0;
         s = AddToolIf (shouldAddTool env ToolConversationsReplies enabledTools [])
                ToolConversationsReplies Fn_ConversationsRepliesHandler s;
         s = AddToolIf (shouldAddTool env ToolConversationsAddMessage enabledTools
                   ''SLACK_MCP_ADD_MESSAGE_TOOL'')
                ToolConversationsAddMessage Fn_ConversationsAddMessageHandler s;
         s = AddToolIf (shouldAddTool env ToolReactionsAdd enabledTools ''SLACK_MCP_REACTION_TOOL'')
                ToolReactionsAdd Fn_ReactionsAddHandler s;
         s = AddToolIf (shouldAddTool env ToolReactionsRemove enabledTools ''SLACK_MCP_REACTION_TOOL'')
                ToolReactionsRemove Fn_ReactionsRemoveHandler s;
         s = AddToolIf (shouldAddTool env ToolAttachmentGetData enabledTools
                   ''SLACK_MCP_ATTACHMENT_TOOL'')
                ToolAttachmentGetData Fn_FilesGetHandler s;
         s = AddToolIf (\<not> isBotToken \<and> shouldAddTool env ToolConversationsSearchMessages enabledTools [])
                ToolConversationsSearchMessages Fn_ConversationsSearchHandler s;
         s = AddTool ''users_search'' Fn_UsersSearchHandler s;
         s = AddToolIf (shouldAddTool env ToolChannelsList enabledTools [])
                ToolChannelsList Fn_ChannelsHandler s;
         s = AddToolIf (shouldAddTool env ToolUsergroupsList enabledTools [])
                ToolUsergroupsList Fn_UsergroupsListHandler s;
         s = AddToolIf (shouldAddTool env ToolUsergroupsMe enabledTools [])
                ToolUsergroupsMe Fn_UsergroupsMeHandler s;
         s = AddToolIf (shouldAddTool env ToolUsergroupsCreate enabledTools [])
                ToolUsergroupsCreate Fn_UsergroupsCreateHandler s;
         s = AddToolIf (shouldAddTool env ToolUsergroupsUpdate enabledTools [])
                ToolUsergroupsUpdate Fn_UsergroupsUpdateHandler s;
         s = AddToolIf (shouldAddTool env ToolUsergroupsUsersUpdate enabledTools [])
                ToolUsergroupsUsersUpdate Fn_UsergroupsUsersUpdateHandler s;
         s = AddToolIf (shouldAddTool env ToolSavedList enabledTools ''SLACK_MCP_SAVED_LIST_TOOL'')
                ToolSavedList Fn_SavedListHandler s;
         s = AddToolIf (shouldAddTool env ToolSavedComplete enabledTools
                   ''SLACK_MCP_SAVED_COMPLETE_TOOL'')
                ToolSavedComplete Fn_SavedCompleteHandler s
     in s)"

text \<open>\<open>logger.Fatal\<close> logs and exits the process; \<open>Fatal\<close> carries the logged message and the
  error, \<open>Started\<close> the value that \<open>NewMCPServer\<close> returns otherwise. \<open>text.Workspace\<close> (package
  \<open>pkg/text\<close>) is a parameter.\<close>

datatype 'a startup = Fatal string error | Started 'a

definition NewMCPServer ::
  "environ \<Rightarrow> 'b ApiProvider \<Rightarrow> (string \<Rightarrow> error + string) \<Rightarrow> string list \<Rightarrow> 'b
     \<Rightarrow> MCPServer startup \<times> 'b" where
  "NewMCPServer env provider text_Workspace enabledTools b =
    (let s = registerTools env (IsBotToken provider) enabledTools server_NewMCPServer in
     case AuthTest (Slack provider) b of
       (Inl err, b') \<Rightarrow> (Fatal ''Failed to authenticate with Slack'' err, b')
     | (Inr ar, b') \<Rightarrow>
         (case text_Workspace (URL ar) of
            Inl err \<Rightarrow> (Fatal ''Failed to parse workspace from URL'' err, b')
          | Inr ws \<Rightarrow>
              (Started
                 (AddResource (''slack://'' @ ws @ ''/users'') Fn_UsersResource
                    (AddResource (''slack://'' @ ws @ ''/channels'') Fn_ChannelsResource s)),
               b')))"

section \<open>Middleware\<close>

definition authErrors :: "string list" where
  "authErrors = [''invalid_auth'', ''not_authed'', ''token_expired'', ''token_revoked'']"

fun isSlackAuthError_loop :: "string \<Rightarrow> string list \<Rightarrow> bool" where
  "isSlackAuthError_loop msg [] = False"
| "isSlackAuthError_loop msg (e # es) =
     (if strings_Contains msg e then True else isSlackAuthError_loop msg es)"

definition isSlackAuthError :: "string \<Rightarrow> bool" where
  "isSlackAuthError msg = isSlackAuthError_loop msg authErrors"

text \<open>The \<open>fmt.Sprintf\<close> of the middleware, with \<open>%s\<close> filled in.\<close>

definition authFailedMessage :: "string \<Rightarrow> string" where
  "authFailedMessage errMsg =
     ''Slack authentication failed ('' @ errMsg @
     ''). Your xoxc/xoxd browser session tokens have expired. Run the /slack-token-refresh skill to automatically refresh them.''"

definition buildErrorRecoveryMiddleware :: "'b ToolCall \<Rightarrow> 'b ToolCall" where
  "buildErrorRecoveryMiddleware next req b =
     (case next req b of
        (Panic p, b') \<Rightarrow> (Panic p, b')
      | (Return (res, Some err), b') \<Rightarrow>
          (let errMsg = err;
               errMsg = (if isSlackAuthError errMsg then authFailedMessage errMsg else errMsg)
           in (Return (Some (NewToolResultError errMsg), None), b'))
      | (Return (res, None), b') \<Rightarrow> (Return (res, None), b'))"




section \<open>Saved-items handlers (pkg/handler/saved.go)\<close>

subsection \<open>Strings\<close>

text \<open>\<open>strings.ReplaceAll(s, old, new)\<close> where \<open>old\<close> is the one-byte string \<open>[c]\<close>, and
  \<open>strings.TrimRight(s, cutset)\<close>.\<close>

definition strings_ReplaceAll_byte :: "string \<Rightarrow> char \<Rightarrow> string \<Rightarrow> string" where
  "strings_ReplaceAll_byte s c new = concat (map (\<lambda>x. if x = c then new else [x]) s)"

definition strings_TrimRight :: "string \<Rightarrow> string \<Rightarrow> string" where
  "strings_TrimRight s cutset = rev (dropWhile (\<lambda>x. x \<in> set cutset) (rev s))"

subsection \<open>The link pattern\<close>

text \<open>\<open>slackLinkRe\<close> is the regular expression \<^verbatim>\<open><([^|>]+)\|?[^>]*>\<close>. A match starts at a
  \<^verbatim>\<open><\<close>; group 1 is greedy and takes the longest run of bytes other than \<^verbatim>\<open>|\<close> and \<^verbatim>\<open>>\<close>, which
  must not be empty; neither group 1 nor the rest of the pattern can step over a \<^verbatim>\<open>>\<close>, so the
  match ends at the first \<^verbatim>\<open>>\<close> after the opening bracket, and there is no match when there is
  none. \<open>slackLinkRe_match\<close> matches at the head of its argument and yields group 1 and the input
  left after the match.\<close>

definition slackLinkRe_match :: "string \<Rightarrow> (string \<times> string) option" where
  "slackLinkRe_match s =
     (case s of
        [] \<Rightarrow> None
      | c # t \<Rightarrow>
          if c \<noteq> CHR ''<'' then None
          else
            (let group1 = takeWhile (\<lambda>x. x \<noteq> CHR ''|'' \<and> x \<noteq> CHR ''>'') t;
                 closing = dropWhile (\<lambda>x. x \<noteq> CHR ''>'') t
             in if group1 = [] \<or> closing = [] then None else Some (group1, tl closing)))"

text \<open>\<open>slackLinkRe.ReplaceAllString(s, "$1")\<close>: the leftmost match is replaced by its group 1,
  and the scan goes on behind the match.\<close>

function slackLinkRe_ReplaceAllString :: "string \<Rightarrow> string" where
  "slackLinkRe_ReplaceAllString [] = []"
| "slackLinkRe_ReplaceAllString (c # s) =
     (case slackLinkRe_match (c # s) of
        Some (group1, rest) \<Rightarrow> group1 @ slackLinkRe_ReplaceAllString rest
      | None \<Rightarrow> c # slackLinkRe_ReplaceAllString s)"
  by pat_completeness auto
termination
proof (relation "measure length")
  show "wf (measure length)" by simp
next
  fix c :: char and s x2 group1 rest
  assume m: "slackLinkRe_match (c # s) = Some x2" and x: "(group1, rest) = x2"
  have "length (tl (dropWhile (\<lambda>x. x \<noteq> CHR ''>'') s)) \<le> length s"
    using length_dropWhile_le [of "\<lambda>x. x \<noteq> CHR ''>''" s] by simp
  with m x show "(rest, c # s) \<in> measure length"
    by (auto simp: slackLinkRe_match_def Let_def split: if_splits)
next
  fix c :: char and s
  show "(s, c # s) \<in> measure length" by simp
qed

subsection \<open>Rows and handlers\<close>

record SavedItemRow =
  Channel :: string
  ChannelName :: string
  Ts :: string
  State :: string
  DateSaved :: string
  DateDue :: string
  User :: string
  Text :: string
  Link :: string
  Cursor :: string

record 'b SavedHandler =
  apiProvider :: "'b ApiProvider"

text \<open>Library functions of the handler that are taken as parameters:
  \<open>time.Unix(x, 0).UTC().Format(time.RFC3339)\<close> and \<open>gocsv.MarshalBytes\<close>.\<close>

record handler_lib =
  formatRFC3339 :: "int \<Rightarrow> string"
  gocsv_MarshalBytes :: "SavedItemRow list \<Rightarrow> error + string"

definition fetchMessageText ::
  "'b SavedHandler \<Rightarrow> string \<Rightarrow> string \<Rightarrow> UsersCache option \<Rightarrow> 'b \<Rightarrow> (string \<times> string) \<times> 'b" where
  "fetchMessageText h channelID ts usersCache b =
     (let params = \<lparr>ChannelID = channelID, Latest = ts, Oldest = ts, Limit = 1,
                     Inclusive = True\<rparr>
      in case GetConversationHistoryContext (Slack (apiProvider h)) params b of
           (Inl err, b') \<Rightarrow> (([], []), b')
         | (Inr history, b') \<Rightarrow>
             (case Messages history of
                [] \<Rightarrow> (([], []), b')
              | msg # _ \<Rightarrow>
                  (let userName =
                         (case usersCache of
                            None \<Rightarrow> MsgUser msg
                          | Some uc \<Rightarrow>
                              (case Users uc (MsgUser msg) of
                                 Some u \<Rightarrow> RealName u
                               | None \<Rightarrow> MsgUser msg));
                       text = slackLinkRe_ReplaceAllString (MsgText msg);
                       text = strings_ReplaceAll_byte text (CHR 0x0A) '' ''
                   in ((userName, text), b'))))"

definition SavedCompleteHandler :: "'b SavedHandler \<Rightarrow> 'b ToolHandlerFunc" where
  "SavedCompleteHandler h request b =
     (let channel = GetString request ''channel'' [] in
      if channel = [] then ((None, Some ''channel is required''), b)
      else
        (let ts = GetString request ''ts'' [] in
         if ts = [] then ((None, Some ''ts is required''), b)
         else
           (case SavedCompleteContext (Slack (apiProvider h)) channel ts b of
              (Some err, b') \<Rightarrow> ((None, Some err), b')
            | (None, b') \<Rightarrow> ((Some (NewToolResultText ''Item marked as complete.''), None), b'))))"

text \<open>The pagination loop of \<open>SavedListHandler\<close>. It has no bound of its own, so it is a partial
  function: \<open>None\<close> is the run that never leaves the loop.\<close>

partial_function (option) SavedList_fetchAll ::
  "'b SavedHandler \<Rightarrow> string \<Rightarrow> SavedItem list \<Rightarrow> 'b \<Rightarrow> ((error + SavedItem list) \<times> 'b) option" where
  "SavedList_fetchAll h cursor allSavedItems b =
     (case SavedListContext (Slack (apiProvider h)) cursor b of
        (Inl err, b') \<Rightarrow> Some (Inl err, b')
      | (Inr result, b') \<Rightarrow>
          (let allSavedItems' = allSavedItems @ SavedItems result in
           if NextCursor result = [] then Some (Inr allSavedItems', b')
           else SavedList_fetchAll h (NextCursor result) allSavedItems' b'))"

text \<open>The second loop of \<open>SavedListHandler\<close>: one row for each saved item, in order.\<close>

fun SavedList_rows ::
  "'b SavedHandler \<Rightarrow> handler_lib \<Rightarrow> string \<Rightarrow> ChannelsCache option \<Rightarrow> UsersCache option
     \<Rightarrow> SavedItem list \<Rightarrow> 'b \<Rightarrow> SavedItemRow list \<times> 'b" where
  "SavedList_rows h lib workspaceURL channelsCache usersCache [] b = ([], b)"
| "SavedList_rows h lib workspaceURL channelsCache usersCache (item # items) b =
     (let channelName =
            (case channelsCache of
               None \<Rightarrow> []
             | Some cc \<Rightarrow>
                 (case Channels cc (ItemID item) of Some ch \<Rightarrow> ChannelRecName ch | None \<Rightarrow> []));
          dateSaved = (if DateCreated item > 0 then formatRFC3339 lib (DateCreated item) else []);
          dateDue = (if ItemDateDue item > 0 then formatRFC3339 lib (ItemDateDue item) else []);
          ((msgUser, msgText), b1) = fetchMessageText h (ItemID item) (ItemTs item) usersCache b;
          link = (if workspaceURL \<noteq> [] \<and> ItemTs item \<noteq> []
                  then workspaceURL @ ''/archives/'' @ ItemID item @ ''/p''
                       @ strings_ReplaceAll_byte (ItemTs item) (CHR ''.'') []
                  else []);
          row = \<lparr>Channel = ItemID item, ChannelName = channelName, Ts = ItemTs item,
                  State = ItemState item, DateSaved = dateSaved, DateDue = dateDue,
                  User = msgUser, Text = msgText, Link = link, Cursor = []\<rparr>;
          (rows, b2) = SavedList_rows h lib workspaceURL channelsCache usersCache items b1
      in (row # rows, b2))"

definition SavedListHandler ::
  "'b SavedHandler \<Rightarrow> handler_lib \<Rightarrow> CallToolRequest \<Rightarrow> 'b \<Rightarrow> (tool_return \<times> 'b) option" where
  "SavedListHandler h lib request b =
     (let cursor = GetString request ''cursor'' [] in
      case SavedList_fetchAll h cursor [] b of
        None \<Rightarrow> None
      | Some (Inl err, b1) \<Rightarrow> Some ((None, Some err), b1)
      | Some (Inr allSavedItems, b1) \<Rightarrow>
          (let (workspaceURL, b2) =
                 (case AuthTest (Slack (apiProvider h)) b1 of
                    (Inr authResp, b2) \<Rightarrow> (strings_TrimRight (URL authResp) ''/'', b2)
                  | (Inl err, b2) \<Rightarrow> ([], b2));
               channelsCache = ProvideChannelsMaps (apiProvider h);
               usersCache = ProvideUsersMap (apiProvider h);
               (rows, b3) =
                 SavedList_rows h lib workspaceURL channelsCache usersCache allSavedItems b2
           in case gocsv_MarshalBytes lib rows of
                Inl err \<Rightarrow> Some ((None, Some err), b3)
              | Inr csvBytes \<Rightarrow> Some ((Some (NewToolResultText csvBytes), None), b3)))"

section \<open>Startup and cache warm-up\<close>

text \<open>Modelled from the spec: the transports of \<open>cmd/slack-mcp-server/main.go\<close>, which is not
  among the sources: the pipe-based \<open>stdio\<close>, and \<open>sse\<close> and \<open>http\<close>, which have a handshake of
  their own.\<close>

datatype transport = Stdio | SSE | HTTP

text \<open>Modelled from the spec: the errors \<open>ErrUsersNotReady\<close> and \<open>ErrChannelsNotReady\<close> of
  \<open>pkg/provider\<close>, which is not among the sources.\<close>

datatype not_ready = ErrUsersNotReady | ErrChannelsNotReady

text \<open>Modelled from the spec: what startup depends on in the absent \<open>ApiProvider\<close> and
  \<open>main.go\<close>: whether each of the two directory caches has been filled by its watcher, and
  whether the server has begun to accept operations.\<close>

record boot_state =
  usersReady :: bool
  channelsReady :: bool
  accepting :: bool

text \<open>Modelled from the spec: the process at its start, the caches cold and no operation
  accepted (\<open>main.go\<close> is not among the sources).\<close>

definition boot_init :: boot_state where
  "boot_init = \<lparr>usersReady = False, channelsReady = False, accepting = False\<rparr>"

text \<open>Modelled from the spec: \<open>ApiProvider.IsReady\<close> (\<open>pkg/provider/api.go\<close>, not among the
  sources), which reports whether both directories are ready and, if not, the error of the
  first that is not.\<close>

definition IsReady :: "boot_state \<Rightarrow> bool \<times> not_ready option" where
  "IsReady st =
     (if \<not> usersReady st then (False, Some ErrUsersNotReady)
      else if \<not> channelsReady st then (False, Some ErrChannelsNotReady)
      else (True, None))"

text \<open>Modelled from the spec: the steps of the concurrent startup of \<open>main.go\<close> (not among the
  sources), interleaved in any order: a watcher finishes filling its cache, or the main
  routine tries to begin serving.\<close>

datatype boot_event = UsersWarmed | ChannelsWarmed | Serve

text \<open>Modelled from the spec: one step of startup in \<open>main.go\<close> (not among the sources). In the
  pipe-based transport the main routine stays blocked until both directories report ready; in
  the transports with a handshake of their own it begins to accept operations at once.\<close>

fun boot_step :: "transport \<Rightarrow> boot_state \<Rightarrow> boot_event \<Rightarrow> boot_state" where
  "boot_step t st UsersWarmed = st\<lparr>usersReady := True\<rparr>"
| "boot_step t st ChannelsWarmed = st\<lparr>channelsReady := True\<rparr>"
| "boot_step t st Serve =
     (case t of
        Stdio \<Rightarrow> if fst (IsReady st) then st\<lparr>accepting := True\<rparr> else st
      | _ \<Rightarrow> st\<lparr>accepting := True\<rparr>)"

text \<open>Modelled from the spec: a run of startup in \<open>main.go\<close> (not among the sources), from the
  cold start through a sequence of steps.\<close>

definition boot_run :: "transport \<Rightarrow> boot_event list \<Rightarrow> boot_state" where
  "boot_run t evs = foldl (boot_step t) boot_init evs"

text \<open>Modelled from the spec: a read operation that needs the cache, as the handlers outside the
  sources begin (\<open>if ready, err := h.apiProvider.IsReady(); !ready { return nil, err }\<close>).
  \<open>None\<close>: the server does not accept operations yet; \<open>Inl\<close>: the not-ready error;
  \<open>Inr\<close>: the operation goes on to read the cache.\<close>

definition cacheReadOperation :: "boot_state \<Rightarrow> (not_ready + unit) option" where
  "cacheReadOperation st =
     (if \<not> accepting st then None
      else (case IsReady st of
              (True, err) \<Rightarrow> Some (Inr ())
            | (False, Some err) \<Rightarrow> Some (Inl err)
            | (False, None) \<Rightarrow> Some (Inr ())))"

section \<open>Auxiliary notions used to state the properties\<close>

subsection \<open>A backend that records its calls\<close>

text \<open>An instance of the \<open>SlackAPI\<close> interface whose state is the list of answers still to be
  given to \<open>SavedListContext\<close> and the log of the calls made so far. The other methods answer
  as the script says.\<close>

datatype api_call =
    Call_AuthTest
  | Call_SavedList string
  | Call_SavedComplete string string
  | Call_History GetConversationHistoryParameters

record backend_state =
  pending :: "(error + SavedListResponse) list"
  calls :: "api_call list"

record backend_script =
  authResult :: "error + AuthTestResponse"
  completeResult :: "string \<Rightarrow> string \<Rightarrow> error option"
  historyResult :: "GetConversationHistoryParameters \<Rightarrow> error + GetConversationHistoryResponse"

definition scriptedAPI :: "backend_script \<Rightarrow> backend_state SlackAPI" where
  "scriptedAPI sc =
     \<lparr>AuthTest = (\<lambda>b. (authResult sc, b\<lparr>calls := calls b @ [Call_AuthTest]\<rparr>)),
      SavedListContext =
        (\<lambda>cursor b.
           case pending b of
             [] \<Rightarrow> (Inl ''context deadline exceeded'',
                    b\<lparr>calls := calls b @ [Call_SavedList cursor]\<rparr>)
           | r # rs \<Rightarrow> (r, b\<lparr>pending := rs, calls := calls b @ [Call_SavedList cursor]\<rparr>)),
      SavedCompleteContext =
        (\<lambda>channel ts b.
           (completeResult sc channel ts, b\<lparr>calls := calls b @ [Call_SavedComplete channel ts]\<rparr>)),
      GetConversationHistoryContext =
        (\<lambda>params b. (historyResult sc params, b\<lparr>calls := calls b @ [Call_History params]\<rparr>))\<rparr>"

definition scriptedProvider :: "backend_script \<Rightarrow> backend_state ApiProvider" where
  "scriptedProvider sc =
     \<lparr>Slack = scriptedAPI sc, IsBotToken = False, ProvideChannelsMaps = None,
      ProvideUsersMap = None\<rparr>"

subsection \<open>A run of cursor-based pagination\<close>

text \<open>\<open>pagesServed api cursor b ps bf\<close>: asked with \<open>cursor\<close> in state \<open>b\<close>, then with the
  next-cursor of each answer in turn, the backend answers with the pages \<open>ps\<close> in this order;
  all but the last page name a next page, the last page has the empty next-cursor, and \<open>bf\<close>
  is the state of the backend after the last answer.\<close>

fun pagesServed ::
  "'b SlackAPI \<Rightarrow> string \<Rightarrow> 'b \<Rightarrow> SavedListResponse list \<Rightarrow> 'b \<Rightarrow> bool" where
  "pagesServed api cursor b [] bf = False"
| "pagesServed api cursor b (p # ps) bf =
     (case SavedListContext api cursor b of
        (Inl err, b') \<Rightarrow> False
      | (Inr r, b') \<Rightarrow>
          r = p \<and>
          (if ps = [] then NextCursor p = [] \<and> b' = bf
           else NextCursor p \<noteq> [] \<and> pagesServed api (NextCursor p) b' ps bf))"

subsection \<open>The strings matched by the link pattern\<close>

text \<open>The pattern \<^verbatim>\<open><([^|>]+)\|?[^>]*>\<close> read as a set of strings: \<open>slackLinkRe_parse w g\<close> holds
  when \<open>w\<close> is matched by the pattern with \<open>g\<close> as the text of group 1.\<close>

definition slackLinkRe_parse :: "string \<Rightarrow> string \<Rightarrow> bool" where
  "slackLinkRe_parse w g \<longleftrightarrow>
     (\<exists>bar l. w = ''<'' @ g @ bar @ l @ ''>'' \<and>
        g \<noteq> [] \<and> (\<forall>c \<in> set g. c \<noteq> CHR ''|'' \<and> c \<noteq> CHR ''>'') \<and>
        (bar = [] \<or> bar = ''|'') \<and> (\<forall>c \<in> set l. c \<noteq> CHR ''>''))"

subsection \<open>Message text as a sequence of segments\<close>

text \<open>Slack message text is plain text, in which \<^verbatim>\<open><\<close> is escaped, interleaved with markup
  \<^verbatim>\<open><url|label>\<close> or \<^verbatim>\<open><url>\<close>. \<open>markup\<close> is the text as the backend sends it, \<open>bare\<close> the
  text with each link replaced by its url.\<close>

datatype segment = Plain string | Link string string | BareLink string

fun wf_segment :: "segment \<Rightarrow> bool" where
  "wf_segment (Plain s) = (CHR ''<'' \<notin> set s)"
| "wf_segment (Link url label) =
     (url \<noteq> [] \<and> CHR ''|'' \<notin> set url \<and> CHR ''>'' \<notin> set url \<and> CHR ''>'' \<notin> set label)"
| "wf_segment (BareLink url) = (url \<noteq> [] \<and> CHR ''|'' \<notin> set url \<and> CHR ''>'' \<notin> set url)"

fun markup :: "segment \<Rightarrow> string" where
  "markup (Plain s) = s"
| "markup (Link url label) = ''<'' @ url @ ''|'' @ label @ ''>''"
| "markup (BareLink url) = ''<'' @ url @ ''>''"

fun bare :: "segment \<Rightarrow> string" where
  "bare (Plain s) = s"
| "bare (Link url label) = url"
| "bare (BareLink url) = url"

subsection \<open>The environment variables read by the registration\<close>

definition gatingEnvVars :: "string list" where
  "gatingEnvVars =
     [''SLACK_MCP_ADD_MESSAGE_TOOL'', ''SLACK_MCP_REACTION_TOOL'', ''SLACK_MCP_ATTACHMENT_TOOL'',
      ''SLACK_MCP_SAVED_LIST_TOOL'', ''SLACK_MCP_SAVED_COMPLETE_TOOL'']"

subsection \<open>A concrete backend for examples\<close>

definition exampleScript :: backend_script where
  "exampleScript =
     \<lparr>authResult = Inr \<lparr>URL = ''https://acme.slack.com/''\<rparr>,
      completeResult = (\<lambda>channel ts. None),
      historyResult =
        (\<lambda>params. Inr \<lparr>Messages =
           [\<lparr>MsgUser = ''U1'',
             MsgText = ''see <https://a.example/x|the doc>'' @ [CHR 0x0A]
                       @ ''and <http://b.example>''\<rparr>]\<rparr>)\<rparr>"

definition exampleProvider :: "bool \<Rightarrow> backend_state ApiProvider" where
  "exampleProvider isBot = (scriptedProvider exampleScript)\<lparr>IsBotToken := isBot\<rparr>"

definition exampleState :: "(error + SavedListResponse) list \<Rightarrow> backend_state" where
  "exampleState answers = \<lparr>pending = answers, calls = []\<rparr>"

definition examplePage1 :: SavedListResponse where
  "examplePage1 =
     \<lparr>SavedItems =
        [\<lparr>ItemID = ''C1'', ItemTs = ''1700000000.000100'', ItemState = ''in_progress'',
          DateCreated = 1700000001, ItemDateDue = 0\<rparr>,
         \<lparr>ItemID = ''C2'', ItemTs = ''1700000100.000200'', ItemState = ''in_progress'',
          DateCreated = 1700000101, ItemDateDue = 1700090000\<rparr>],
      NextCursor = ''page2''\<rparr>"

definition examplePage2 :: SavedListResponse where
  "examplePage2 =
     \<lparr>SavedItems =
        [\<lparr>ItemID = ''D3'', ItemTs = ''1700000200.000300'', ItemState = ''completed'',
          DateCreated = 1700000201, ItemDateDue = 0\<rparr>],
      NextCursor = []\<rparr>"





definition exampleLib :: handler_lib where
  "exampleLib =
     \<lparr>formatRFC3339 = (\<lambda>t. ''2023-11-14T22:13:21Z''),
      gocsv_MarshalBytes = (\<lambda>rows. Inr (strings_Join (map Channel rows) '',''))\<rparr>"

section \<open>Library facts\<close>

lemmas tool_name_defs =
  ToolConversationsHistory_def ToolConversationsReplies_def ToolConversationsAddMessage_def
  ToolReactionsAdd_def ToolReactionsRemove_def ToolAttachmentGetData_def
  ToolConversationsSearchMessages_def ToolChannelsList_def ToolUsergroupsList_def
  ToolUsergroupsMe_def ToolUsergroupsCreate_def ToolUsergroupsUpdate_def
  ToolUsergroupsUsersUpdate_def ToolSavedList_def ToolSavedComplete_def

lemma slices_Contains_iff: "slices_Contains xs v \<longleftrightarrow> v \<in> set xs"
  by (induction xs) auto

lemma strings_HasPrefix_iff: "strings_HasPrefix s p \<longleftrightarrow> (\<exists>post. s = p @ post)"
  by (induction s p rule: strings_HasPrefix.induct) auto

lemma strings_Contains_iff:
  "strings_Contains s substr \<longleftrightarrow> (\<exists>pre post. s = pre @ substr @ post)"
proof (induction s)
  case Nil
  then show ?case by simp
next
  case (Cons c s)
  show ?case
  proof
    assume "strings_Contains (c # s) substr"
    then consider "strings_HasPrefix (c # s) substr" | "strings_Contains s substr"
      by auto
    then show "\<exists>pre post. c # s = pre @ substr @ post"
    proof cases
      case 1
      then obtain post where "c # s = substr @ post"
        using strings_HasPrefix_iff by blast
      then have "c # s = [] @ substr @ post" by simp
      then show ?thesis by blast
    next
      case 2
      then obtain pre post where "s = pre @ substr @ post"
        using Cons.IH by blast
      then have "c # s = (c # pre) @ substr @ post" by simp
      then show ?thesis by blast
    qed
  next
    assume "\<exists>pre post. c # s = pre @ substr @ post"
    then obtain pre post where eq: "c # s = pre @ substr @ post" by blast
    show "strings_Contains (c # s) substr"
    proof (cases pre)
      case Nil
      with eq have "strings_HasPrefix (c # s) substr"
        using strings_HasPrefix_iff by auto
      then show ?thesis by simp
    next
      case (Cons d pre')
      with eq have "s = pre' @ substr @ post" by simp
      then have "strings_Contains s substr" using Cons.IH by blast
      then show ?thesis by simp
    qed
  qed
qed

lemma validToolSet_lookup: "map_index_bool validToolSet t \<longleftrightarrow> t \<in> set ValidToolNames"
  by (auto simp: validToolSet_def ValidToolNames_def map_index_bool_def)

lemma collectInvalidTools_eq:
  "collectInvalidTools names acc = acc @ filter (\<lambda>t. t \<notin> set ValidToolNames) names"
  by (induction names arbitrary: acc) (simp_all add: validToolSet_lookup)

subsection \<open>Registration\<close>

lemma tools_AddTool: "tools (AddTool n h s) k = (if k = n then Some h else tools s k)"
  by (simp add: AddTool_def)

lemma tools_AddToolIf:
  "tools (AddToolIf c n h s) k = (if c \<and> k = n then Some h else tools s k)"
  by (simp add: AddToolIf_def AddTool_def)

lemma registerTools_search:
  "tools (registerTools env isBot enabledTools server_NewMCPServer) ToolConversationsSearchMessages =
     (if \<not> isBot \<and> shouldAddTool env ToolConversationsSearchMessages enabledTools []
      then Some Fn_ConversationsSearchHandler else None)"
  unfolding registerTools_def Let_def
  by (simp add: tools_AddToolIf tools_AddTool server_NewMCPServer_def tool_name_defs)

lemma NewMCPServer_tools:
  "NewMCPServer env provider text_Workspace enabledTools b = (Started srv, b') \<Longrightarrow>
   tools srv = tools (registerTools env (IsBotToken provider) enabledTools server_NewMCPServer)"
  by (auto simp: NewMCPServer_def Let_def AddResource_def split: prod.splits sum.splits)

lemma shouldAddTool_env_cong:
  "E = [] \<or> (os_Getenv env1 E = []) = (os_Getenv env2 E = []) \<Longrightarrow>
   shouldAddTool env1 T enabledTools E = shouldAddTool env2 T enabledTools E"
  by (auto simp: shouldAddTool_def)

lemma registerTools_env_cong:
  assumes "\<forall>v \<in> set gatingEnvVars. (os_Getenv env1 v = []) = (os_Getenv env2 v = [])"
  shows "registerTools env1 isBot enabledTools s0 = registerTools env2 isBot enabledTools s0"
proof -
  have e: "\<And>T. shouldAddTool env1 T enabledTools [] = shouldAddTool env2 T enabledTools []"
    by (rule shouldAddTool_env_cong) simp
  have v: "\<And>T E. E \<in> set gatingEnvVars \<Longrightarrow>
             shouldAddTool env1 T enabledTools E = shouldAddTool env2 T enabledTools E"
    using assms by (intro shouldAddTool_env_cong) blast
  have v1: "\<And>T. shouldAddTool env1 T enabledTools ''SLACK_MCP_ADD_MESSAGE_TOOL''
              = shouldAddTool env2 T enabledTools ''SLACK_MCP_ADD_MESSAGE_TOOL''"
    and v2: "\<And>T. shouldAddTool env1 T enabledTools ''SLACK_MCP_REACTION_TOOL''
              = shouldAddTool env2 T enabledTools ''SLACK_MCP_REACTION_TOOL''"
    and v3: "\<And>T. shouldAddTool env1 T enabledTools ''SLACK_MCP_ATTACHMENT_TOOL''
              = shouldAddTool env2 T enabledTools ''SLACK_MCP_ATTACHMENT_TOOL''"
    and v4: "\<And>T. shouldAddTool env1 T enabledTools ''SLACK_MCP_SAVED_LIST_TOOL''
              = shouldAddTool env2 T enabledTools ''SLACK_MCP_SAVED_LIST_TOOL''"
    and v5: "\<And>T. shouldAddTool env1 T enabledTools ''SLACK_MCP_SAVED_COMPLETE_TOOL''
              = shouldAddTool env2 T enabledTools ''SLACK_MCP_SAVED_COMPLETE_TOOL''"
    by (rule v, simp add: gatingEnvVars_def)+
  show ?thesis
    unfolding registerTools_def e v1 v2 v3 v4 v5 ..
qed

subsection \<open>The example backend\<close>

lemmas example_defs =
  exampleProvider_def exampleState_def exampleScript_def scriptedProvider_def scriptedAPI_def

subsection \<open>Middleware\<close>

lemma isSlackAuthError_loop_iff:
  "isSlackAuthError_loop msg es \<longleftrightarrow> (\<exists>e \<in> set es. strings_Contains msg e)"
  by (induction es) auto

lemma isSlackAuthError_iff:
  "isSlackAuthError msg \<longleftrightarrow>
     (\<exists>e \<in> set [''invalid_auth'', ''not_authed'', ''token_expired'', ''token_revoked''].
        \<exists>pre post. msg = pre @ e @ post)"
  unfolding isSlackAuthError_def isSlackAuthError_loop_iff authErrors_def strings_Contains_iff ..

lemma authFailedMessage_neq: "authFailedMessage err \<noteq> err"
proof
  assume "authFailedMessage err = err"
  then have "length (authFailedMessage err) = length err" by simp
  then show False by (simp add: authFailedMessage_def)
qed

lemma authFailedMessage_contains: "strings_Contains (authFailedMessage err) err"
  unfolding strings_Contains_iff authFailedMessage_def by blast

lemma strings_Contains_refl: "strings_Contains s s"
proof -
  have "s = [] @ s @ []" by simp
  then show ?thesis unfolding strings_Contains_iff by blast
qed

lemma buildErrorRecoveryMiddleware_error:
  "next req b = (Return (res, Some err), b') \<Longrightarrow>
   buildErrorRecoveryMiddleware next req b =
     (Return (Some (NewToolResultError
                (if isSlackAuthError err then authFailedMessage err else err)), None), b')"
  by (simp add: buildErrorRecoveryMiddleware_def)

lemma buildErrorRecoveryMiddleware_ok:
  "next req b = (Return (res, None), b') \<Longrightarrow>
   buildErrorRecoveryMiddleware next req b = (Return (res, None), b')"
  by (simp add: buildErrorRecoveryMiddleware_def)

lemma buildErrorRecoveryMiddleware_panic:
  "next req b = (Panic p, b') \<Longrightarrow> buildErrorRecoveryMiddleware next req b = (Panic p, b')"
  by (simp add: buildErrorRecoveryMiddleware_def)

subsection \<open>Startup and the handler chain\<close>






subsection \<open>Saved-items handlers\<close>

lemma scriptedAPI_SavedCompleteContext:
  "SavedCompleteContext (scriptedAPI sc) channel ts b =
     (completeResult sc channel ts, b\<lparr>calls := calls b @ [Call_SavedComplete channel ts]\<rparr>)"
  by (simp add: scriptedAPI_def)

subsection \<open>The link pattern against the regular expression\<close>

text \<open>\<open>slackLinkRe_match\<close> agrees with the pattern: what it matches is matched by the pattern
  with the group it returns; where the pattern matches a prefix of the input, it finds the
  match of the same extent, so there is one match at most at a position, and its group 1
  extends every other possible group 1 (the group is greedy); and it finds nothing only where
  the pattern matches no prefix.\<close>

lemma takeWhile_takeWhile_weaker:
  "(\<And>x. P x \<Longrightarrow> Q x) \<Longrightarrow> takeWhile P (takeWhile Q xs) = takeWhile P xs"
  by (induction xs) auto

lemma slackLinkRe_match_SomeD:
  assumes "slackLinkRe_match s = Some (g, rest)"
  shows "\<exists>t. s = CHR ''<'' # t \<and> g = takeWhile (\<lambda>x. x \<noteq> CHR ''|'' \<and> x \<noteq> CHR ''>'') t \<and>
             g \<noteq> [] \<and> dropWhile (\<lambda>x. x \<noteq> CHR ''>'') t \<noteq> [] \<and>
             rest = tl (dropWhile (\<lambda>x. x \<noteq> CHR ''>'') t)"
proof (cases s)
  case Nil
  with assms show ?thesis by (simp add: slackLinkRe_match_def)
next
  case (Cons c t)
  with assms have c: "c = CHR ''<''"
    by (simp add: slackLinkRe_match_def split: if_splits)
  with assms Cons show ?thesis
    by (simp add: slackLinkRe_match_def Let_def split: if_splits)
qed


lemma slackLinkRe_match_sound:
  assumes "slackLinkRe_match s = Some (g, rest)"
  shows "\<exists>w. s = w @ rest \<and> slackLinkRe_parse w g"
proof -
  let ?P = "\<lambda>x. x \<noteq> CHR ''|'' \<and> x \<noteq> CHR ''>''"
  let ?Q = "\<lambda>x. x \<noteq> CHR ''>''"
  from slackLinkRe_match_SomeD [OF assms] obtain t where s: "s = CHR ''<'' # t"
    and g: "g = takeWhile ?P t" "g \<noteq> []"
    and d: "dropWhile ?Q t \<noteq> []" "rest = tl (dropWhile ?Q t)"
    by blast
  from d(1) have "\<not> ?Q (hd (dropWhile ?Q t))"
    by (rule hd_dropWhile)
  then have hd: "hd (dropWhile ?Q t) = CHR ''>''" by simp
  with d have dr: "dropWhile ?Q t = CHR ''>'' # rest"
    by (cases "dropWhile ?Q t") simp_all
  have "t = takeWhile ?Q t @ dropWhile ?Q t" by simp
  with dr have t: "t = takeWhile ?Q t @ CHR ''>'' # rest" by simp
  define m where "m = dropWhile ?P (takeWhile ?Q t)"
  have "takeWhile ?P (takeWhile ?Q t) = takeWhile ?P t"
    by (rule takeWhile_takeWhile_weaker) simp
  moreover have "takeWhile ?Q t
      = takeWhile ?P (takeWhile ?Q t) @ dropWhile ?P (takeWhile ?Q t)"
    by simp
  ultimately have tq: "takeWhile ?Q t = g @ m"
    using g(1) m_def by simp
  have mq: "\<forall>c \<in> set m. c \<noteq> CHR ''>''"
  proof
    fix c assume "c \<in> set m"
    then have "c \<in> set (takeWhile ?Q t)" using tq by simp
    then show "c \<noteq> CHR ''>''" by (rule set_takeWhileD [THEN conjunct2])
  qed
  have gp: "\<forall>c \<in> set g. c \<noteq> CHR ''|'' \<and> c \<noteq> CHR ''>''"
  proof
    fix c assume "c \<in> set g"
    then have "c \<in> set (takeWhile ?P t)" using g(1) by simp
    then show "c \<noteq> CHR ''|'' \<and> c \<noteq> CHR ''>''" by (rule set_takeWhileD [THEN conjunct2])
  qed
  have "\<exists>bar l. m = bar @ l \<and> (bar = [] \<or> bar = ''|'') \<and> (\<forall>c \<in> set l. c \<noteq> CHR ''>'')"
  proof (cases m)
    case Nil
    then show ?thesis by simp
  next
    case (Cons c l)
    then have "dropWhile ?P (takeWhile ?Q t) \<noteq> []" using m_def by simp
    then have "\<not> ?P (hd (dropWhile ?P (takeWhile ?Q t)))" by (rule hd_dropWhile)
    then have "\<not> ?P c" using Cons m_def by simp
    moreover have "c \<noteq> CHR ''>''" using mq Cons by simp
    ultimately have "c = CHR ''|''" by simp
    with Cons mq have "m = ''|'' @ l \<and> (\<forall>c \<in> set l. c \<noteq> CHR ''>'')" by simp
    then show ?thesis by blast
  qed
  then obtain bar l where m: "m = bar @ l" "bar = [] \<or> bar = ''|''" "\<forall>c \<in> set l. c \<noteq> CHR ''>''"
    by blast
  have "s = CHR ''<'' # (g @ m) @ CHR ''>'' # rest"
    using s t tq by simp
  then have "s = (''<'' @ g @ bar @ l @ ''>'') @ rest"
    using m(1) by simp
  moreover have "slackLinkRe_parse (''<'' @ g @ bar @ l @ ''>'') g"
    unfolding slackLinkRe_parse_def using g(2) gp m(2,3) by blast
  ultimately show ?thesis by blast
qed


lemma slackLinkRe_match_at_bracket:
  assumes "takeWhile (\<lambda>x. x \<noteq> CHR ''|'' \<and> x \<noteq> CHR ''>'') t0 = g" "g \<noteq> []"
    and "dropWhile (\<lambda>x. x \<noteq> CHR ''>'') t0 = c # t"
  shows "slackLinkRe_match (CHR ''<'' # t0) = Some (g, t)"
proof -
  have "CHR ''>'' \<in> set t0"
  proof (rule ccontr)
    assume "CHR ''>'' \<notin> set t0"
    then have "dropWhile (\<lambda>x. x \<noteq> CHR ''>'') t0 = []" by auto
    with assms(3) show False by simp
  qed
  then show ?thesis by (simp add: slackLinkRe_match_def assms)
qed

lemma slackLinkRe_match_complete:
  assumes "slackLinkRe_parse w g'"
  shows "\<exists>g. slackLinkRe_match (w @ t) = Some (g, t) \<and> take (length g') g = g'"
proof -
  let ?P = "\<lambda>x. x \<noteq> CHR ''|'' \<and> x \<noteq> CHR ''>''"
  let ?Q = "\<lambda>x. x \<noteq> CHR ''>''"
  from assms obtain bar l where w: "w = ''<'' @ g' @ bar @ l @ ''>''"
    and g: "g' \<noteq> []" "\<forall>c \<in> set g'. ?P c"
    and b: "bar = [] \<or> bar = ''|''" and l: "\<forall>c \<in> set l. ?Q c"
    unfolding slackLinkRe_parse_def by blast
  define t1 where "t1 = bar @ l @ CHR ''>'' # t"
  define t0 where "t0 = g' @ t1"
  have tw: "takeWhile ?P t0 = g' @ takeWhile ?P t1"
    unfolding t0_def using g(2) by (intro takeWhile_append2) blast
  from b have bq: "\<forall>c \<in> set bar. ?Q c" by (rule disjE) simp_all
  have "dropWhile ?Q t0 = dropWhile ?Q t1"
    unfolding t0_def using g(2) by (intro dropWhile_append2) blast
  also have "\<dots> = dropWhile ?Q (l @ CHR ''>'' # t)"
    unfolding t1_def using bq by (intro dropWhile_append2) blast
  also have "\<dots> = dropWhile ?Q (CHR ''>'' # t)"
    using l by (intro dropWhile_append2) blast
  also have "\<dots> = CHR ''>'' # t" by simp
  finally have dw: "dropWhile ?Q t0 = CHR ''>'' # t" .
  have w0: "w @ t = CHR ''<'' # t0" unfolding w t0_def t1_def by simp
  have ne: "takeWhile ?P t0 \<noteq> []" unfolding tw using g(1) by simp
  have "slackLinkRe_match (CHR ''<'' # t0) = Some (takeWhile ?P t0, t)"
    using refl ne dw by (rule slackLinkRe_match_at_bracket)
  then have "slackLinkRe_match (w @ t) = Some (takeWhile ?P t0, t)"
    unfolding w0 .
  moreover have "take (length g') (takeWhile ?P t0) = g'" unfolding tw by simp
  ultimately show ?thesis by blast
qed

lemma slackLinkRe_match_None:
  assumes "slackLinkRe_match s = None"
  shows "\<not> (\<exists>w g t. s = w @ t \<and> slackLinkRe_parse w g)"
proof
  assume "\<exists>w g t. s = w @ t \<and> slackLinkRe_parse w g"
  then obtain w g t where s: "s = w @ t" and p: "slackLinkRe_parse w g" by blast
  from slackLinkRe_match_complete [OF p, of t] obtain g0
    where "slackLinkRe_match (w @ t) = Some (g0, t)" by blast
  with assms s show False by simp
qed

subsection \<open>The link pattern on well-formed message text\<close>

lemma slackLinkRe_ReplaceAllString_plain:
  "CHR ''<'' \<notin> set s \<Longrightarrow>
   slackLinkRe_ReplaceAllString (s @ t) = s @ slackLinkRe_ReplaceAllString t"
  by (induction s) (auto simp: slackLinkRe_match_def)

lemma slackLinkRe_match_link:
  assumes "url \<noteq> []" "CHR ''|'' \<notin> set url" "CHR ''>'' \<notin> set url" "CHR ''>'' \<notin> set label"
  shows "slackLinkRe_match (CHR ''<'' # url @ CHR ''|'' # label @ CHR ''>'' # t) = Some (url, t)"
proof -
  have g: "takeWhile (\<lambda>x. x \<noteq> CHR ''|'' \<and> x \<noteq> CHR ''>'') (url @ CHR ''|'' # label @ CHR ''>'' # t) = url"
    using assms by (subst takeWhile_append2) auto
  have "dropWhile (\<lambda>x. x \<noteq> CHR ''>'') (url @ CHR ''|'' # label @ CHR ''>'' # t)
          = dropWhile (\<lambda>x. x \<noteq> CHR ''>'') (CHR ''|'' # label @ CHR ''>'' # t)"
    using assms by (subst dropWhile_append2) auto
  also have "\<dots> = dropWhile (\<lambda>x. x \<noteq> CHR ''>'') (label @ CHR ''>'' # t)" by simp
  also have "\<dots> = CHR ''>'' # t"
    using assms by (subst dropWhile_append2) auto
  finally show ?thesis
    using assms g by (simp add: slackLinkRe_match_def)
qed

lemma slackLinkRe_match_bare:
  assumes "url \<noteq> []" "CHR ''|'' \<notin> set url" "CHR ''>'' \<notin> set url"
  shows "slackLinkRe_match (CHR ''<'' # url @ CHR ''>'' # t) = Some (url, t)"
proof -
  have g: "takeWhile (\<lambda>x. x \<noteq> CHR ''|'' \<and> x \<noteq> CHR ''>'') (url @ CHR ''>'' # t) = url"
    using assms by (subst takeWhile_append2) auto
  have "dropWhile (\<lambda>x. x \<noteq> CHR ''>'') (url @ CHR ''>'' # t) = CHR ''>'' # t"
    using assms by (subst dropWhile_append2) auto
  then show ?thesis
    using assms g by (simp add: slackLinkRe_match_def)
qed

lemma slackLinkRe_ReplaceAllString_segment:
  "wf_segment seg \<Longrightarrow>
   slackLinkRe_ReplaceAllString (markup seg @ t) = bare seg @ slackLinkRe_ReplaceAllString t"
proof (cases seg)
  case (Plain s)
  then show "wf_segment seg \<Longrightarrow> ?thesis"
    by (simp add: slackLinkRe_ReplaceAllString_plain)
next
  case (Link url label)
  assume "wf_segment seg"
  with Link have "slackLinkRe_match (CHR ''<'' # url @ CHR ''|'' # label @ CHR ''>'' # t) = Some (url, t)"
    by (intro slackLinkRe_match_link) simp_all
  with Link show ?thesis by simp
next
  case (BareLink url)
  assume "wf_segment seg"
  with BareLink have "slackLinkRe_match (CHR ''<'' # url @ CHR ''>'' # t) = Some (url, t)"
    by (intro slackLinkRe_match_bare) simp_all
  with BareLink show ?thesis by simp
qed

lemma slackLinkRe_ReplaceAllString_segments:
  "\<forall>seg \<in> set segs. wf_segment seg \<Longrightarrow>
   slackLinkRe_ReplaceAllString (concat (map markup segs)) = concat (map bare segs)"
  by (induction segs) (simp_all add: slackLinkRe_ReplaceAllString_segment)

lemma strings_ReplaceAll_byte_newline:
  "strings_ReplaceAll_byte s (CHR 0x0A) '' '' = map (\<lambda>x. if x = CHR 0x0A then CHR '' '' else x) s"
  by (induction s) (simp_all add: strings_ReplaceAll_byte_def)

subsection \<open>Fetching the text of a saved message\<close>

lemma strings_ReplaceAll_byte_no_newline:
  "CHR 0x0A \<notin> set (strings_ReplaceAll_byte s (CHR 0x0A) '' '')"
  by (auto simp: strings_ReplaceAll_byte_newline)

lemma fetchMessageText_error:
  "GetConversationHistoryContext (Slack (apiProvider h))
     \<lparr>ChannelID = channelID, Latest = ts, Oldest = ts, Limit = 1, Inclusive = True\<rparr> b
     = (Inl err, b') \<Longrightarrow>
   fetchMessageText h channelID ts usersCache b = (([], []), b')"
  by (simp add: fetchMessageText_def)

lemma fetchMessageText_empty:
  "GetConversationHistoryContext (Slack (apiProvider h))
     \<lparr>ChannelID = channelID, Latest = ts, Oldest = ts, Limit = 1, Inclusive = True\<rparr> b
     = (Inr history, b') \<Longrightarrow> Messages history = [] \<Longrightarrow>
   fetchMessageText h channelID ts usersCache b = (([], []), b')"
  by (simp add: fetchMessageText_def)

lemma fetchMessageText_message:
  "GetConversationHistoryContext (Slack (apiProvider h))
     \<lparr>ChannelID = channelID, Latest = ts, Oldest = ts, Limit = 1, Inclusive = True\<rparr> b
     = (Inr history, b') \<Longrightarrow> Messages history = msg # rest \<Longrightarrow>
   fetchMessageText h channelID ts usersCache b =
     (((case usersCache of
          None \<Rightarrow> MsgUser msg
        | Some uc \<Rightarrow> (case Users uc (MsgUser msg) of Some u \<Rightarrow> RealName u | None \<Rightarrow> MsgUser msg)),
       strings_ReplaceAll_byte (slackLinkRe_ReplaceAllString (MsgText msg)) (CHR 0x0A) '' ''),
      b')"
  by (simp add: fetchMessageText_def)

subsection \<open>The pagination loop\<close>

lemma SavedList_fetchAll_pagesServed:
  "pagesServed (Slack (apiProvider h)) cursor b ps bf \<Longrightarrow>
   SavedList_fetchAll h cursor acc b = Some (Inr (acc @ concat (map SavedItems ps)), bf)"
proof (induction ps arbitrary: cursor b acc)
  case Nil
  then show ?case by simp
next
  case (Cons p ps)
  from Cons.prems obtain b' where
    call: "SavedListContext (Slack (apiProvider h)) cursor b = (Inr p, b')"
    and rest: "if ps = [] then NextCursor p = [] \<and> b' = bf
               else NextCursor p \<noteq> [] \<and> pagesServed (Slack (apiProvider h)) (NextCursor p) b' ps bf"
    by (auto split: prod.splits sum.splits)
  show ?case
  proof (cases "ps = []")
    case True
    with call rest show ?thesis
      by (subst SavedList_fetchAll.simps) simp
  next
    case False
    with rest have n: "NextCursor p \<noteq> []"
      and s: "pagesServed (Slack (apiProvider h)) (NextCursor p) b' ps bf"
      by simp_all
    from Cons.IH [OF s, of "acc @ SavedItems p"]
    have "SavedList_fetchAll h (NextCursor p) (acc @ SavedItems p) b'
            = Some (Inr (acc @ SavedItems p @ concat (map SavedItems ps)), bf)"
      by simp
    with call n show ?thesis
      by (subst SavedList_fetchAll.simps) simp
  qed
qed

lemma SavedList_fetchAll_Some_pages:
  assumes ret: "SavedList_fetchAll h cursor acc b = Some y"
  shows "\<forall>items bf. y = (Inr items, bf) \<longrightarrow>
      (\<exists>ps. pagesServed (Slack (apiProvider h)) cursor b ps bf \<and>
            items = acc @ concat (map SavedItems ps))"
proof (induct rule: SavedList_fetchAll.raw_induct [OF _ ret])
  case (1 fetchAll h cursor acc b y)
  show ?case
  proof (intro allI impI)
    fix items bf
    assume y: "y = (Inr items, bf)"
    obtain r b' where call: "SavedListContext (Slack (apiProvider h)) cursor b = (r, b')"
      by (meson surj_pair)
    show "\<exists>ps. pagesServed (Slack (apiProvider h)) cursor b ps bf \<and>
               items = acc @ concat (map SavedItems ps)"
    proof (cases r)
      case (Inl err)
      with 1(2) call y show ?thesis by simp
    next
      case (Inr p)
      show ?thesis
      proof (cases "NextCursor p = []")
        case True
        with 1(2) call Inr y have "items = acc @ SavedItems p" and "bf = b'"
          by simp_all
        with call Inr True have "pagesServed (Slack (apiProvider h)) cursor b [p] bf \<and>
               items = acc @ concat (map SavedItems [p])"
          by simp
        then show ?thesis by blast
      next
        case False
        with 1(2) call Inr y
        have "fetchAll h (NextCursor p) (acc @ SavedItems p) b' = Some (Inr items, bf)"
          by simp
        from 1(1) [OF this] obtain ps where
          s: "pagesServed (Slack (apiProvider h)) (NextCursor p) b' ps bf"
          and i: "items = (acc @ SavedItems p) @ concat (map SavedItems ps)"
          by blast
        from s have "ps \<noteq> []" by (cases ps) simp_all
        with call Inr False s i
        have "pagesServed (Slack (apiProvider h)) cursor b (p # ps) bf \<and>
               items = acc @ concat (map SavedItems (p # ps))"
          by simp
        then show ?thesis by blast
      qed
    qed
  qed
qed

lemma SavedList_rows_fields:
  "SavedList_rows h lib workspaceURL channelsCache usersCache items b = (rows, b') \<Longrightarrow>
   map Channel rows = map ItemID items \<and> map Ts rows = map ItemTs items \<and>
   map State rows = map ItemState items"
proof (induction items arbitrary: b rows)
  case Nil
  then show ?case by simp
next
  case (Cons item items)
  then show ?case
    by (auto simp: Let_def split: prod.splits)
qed

subsection \<open>Startup\<close>

lemma boot_step_ready_mono:
  "usersReady st \<Longrightarrow> usersReady (boot_step t st ev)"
  "channelsReady st \<Longrightarrow> channelsReady (boot_step t st ev)"
  by (cases ev; cases t; simp)+

lemma boot_step_stdio_inv:
  "(accepting st \<longrightarrow> usersReady st \<and> channelsReady st) \<Longrightarrow>
   (accepting (boot_step Stdio st ev) \<longrightarrow>
      usersReady (boot_step Stdio st ev) \<and> channelsReady (boot_step Stdio st ev))"
  by (cases ev) (auto simp: IsReady_def split: if_splits)

lemma boot_run_snoc: "boot_run t (evs @ [ev]) = boot_step t (boot_run t evs) ev"
  by (simp add: boot_run_def)

lemma boot_run_stdio_inv:
  "accepting (boot_run Stdio evs) \<longrightarrow>
     usersReady (boot_run Stdio evs) \<and> channelsReady (boot_run Stdio evs)"
proof (induction evs rule: rev_induct)
  case Nil
  show ?case by (simp add: boot_run_def boot_init_def)
next
  case (snoc ev evs)
  then show ?case
    unfolding boot_run_snoc by (rule boot_step_stdio_inv)
qed

lemma boot_run_stdio_serve:
  "accepting (boot_run Stdio (evs @ [Serve])) \<longleftrightarrow>
     accepting (boot_run Stdio evs) \<or>
     (usersReady (boot_run Stdio evs) \<and> channelsReady (boot_run Stdio evs))"
  by (auto simp: boot_run_snoc IsReady_def)

lemma boot_run_ready:
  "usersReady (boot_run t evs) \<longleftrightarrow> UsersWarmed \<in> set evs"
  "channelsReady (boot_run t evs) \<longleftrightarrow> ChannelsWarmed \<in> set evs"
proof (induction evs rule: rev_induct)
  case Nil
  {
    case 1 show ?case by (simp add: boot_run_def boot_init_def)
  next
    case 2 show ?case by (simp add: boot_run_def boot_init_def)
  }
next
  case (snoc ev evs)
  {
    case 1 with snoc show ?case unfolding boot_run_snoc by (cases ev; cases t; simp)
  next
    case 2 with snoc show ?case unfolding boot_run_snoc by (cases ev; cases t; simp)
  }
qed

section \<open>Properties\<close>

text \<open>Claim C4. The explicit allow-list overrides the default gating. \<open>shouldAddTool\<close> returns
  true whenever the allow-list contains the tool, whatever the environment holds; for a tool
  with an opt-in variable \<open>E\<close> and an empty allow-list it returns whether \<open>E\<close> is set to a
  non-empty value; it returns false when the allow-list is non-empty and does not contain the
  tool, even if \<open>E\<close> is set; and for a tool without a variable it returns true exactly when the
  allow-list is empty or contains the tool.\<close>

theorem shouldAddTool_allow_list_overrides:
  "(T \<in> set enabledTools \<longrightarrow> shouldAddTool env T enabledTools E) \<and>
   (E \<noteq> [] \<and> enabledTools = [] \<longrightarrow>
      shouldAddTool env T enabledTools E = (os_Getenv env E \<noteq> [])) \<and>
   (enabledTools \<noteq> [] \<and> T \<notin> set enabledTools \<longrightarrow> \<not> shouldAddTool env T enabledTools E) \<and>
   (shouldAddTool env T enabledTools [] \<longleftrightarrow> enabledTools = [] \<or> T \<in> set enabledTools)"
  by (auto simp: shouldAddTool_def slices_Contains_iff)

theorem shouldAddTool_allow_list_overrides_witness:
  "shouldAddTool Map.empty ''saved_list'' [''saved_list''] ''SLACK_MCP_SAVED_LIST_TOOL'' \<and>
   \<not> shouldAddTool Map.empty ''saved_list'' [] ''SLACK_MCP_SAVED_LIST_TOOL'' \<and>
   shouldAddTool [''SLACK_MCP_SAVED_LIST_TOOL'' \<mapsto> ''true''] ''saved_list'' []
     ''SLACK_MCP_SAVED_LIST_TOOL'' \<and>
   \<not> shouldAddTool [''SLACK_MCP_SAVED_LIST_TOOL'' \<mapsto> ''true''] ''saved_list''
       [''channels_list''] ''SLACK_MCP_SAVED_LIST_TOOL'' \<and>
   shouldAddTool Map.empty ''channels_list'' [] [] \<and>
   \<not> shouldAddTool Map.empty ''channels_list'' [''saved_list''] []"
  using shouldAddTool_allow_list_overrides
          [of "''saved_list''" "[''saved_list'']" Map.empty "''SLACK_MCP_SAVED_LIST_TOOL''"]
        shouldAddTool_allow_list_overrides
          [of "''saved_list''" "[]" Map.empty "''SLACK_MCP_SAVED_LIST_TOOL''"]
        shouldAddTool_allow_list_overrides
          [of "''saved_list''" "[]" "[''SLACK_MCP_SAVED_LIST_TOOL'' \<mapsto> ''true'']"
              "''SLACK_MCP_SAVED_LIST_TOOL''"]
        shouldAddTool_allow_list_overrides
          [of "''saved_list''" "[''channels_list'']" "[''SLACK_MCP_SAVED_LIST_TOOL'' \<mapsto> ''true'']"
              "''SLACK_MCP_SAVED_LIST_TOOL''"]
        shouldAddTool_allow_list_overrides [of "''channels_list''" "[]" Map.empty "[]"]
        shouldAddTool_allow_list_overrides [of "''channels_list''" "[''saved_list'']" Map.empty "[]"]
  by (simp add: os_Getenv_def)

text \<open>Claim C10. \<open>ValidateEnabledTools\<close> returns nil exactly when every name of its input is
  one of \<open>ValidToolNames\<close>; otherwise it returns the error whose message lists the input names
  that are not valid, in input order, followed by the valid names. The function only ranges
  over its argument: it is a function of the list, which it leaves as it is.\<close>

theorem ValidateEnabledTools_spec:
  "(ValidateEnabledTools names = None \<longleftrightarrow> (\<forall>t \<in> set names. t \<in> set ValidToolNames)) \<and>
   (\<not> (\<forall>t \<in> set names. t \<in> set ValidToolNames) \<longrightarrow>
      ValidateEnabledTools names =
        Some (''invalid tool name(s): ''
              @ strings_Join (filter (\<lambda>t. t \<notin> set ValidToolNames) names) '', ''
              @ ''. Valid tools are: '' @ strings_Join ValidToolNames '', ''))"
  by (auto simp: ValidateEnabledTools_def collectInvalidTools_eq Let_def filter_empty_conv)

theorem ValidateEnabledTools_spec_witness:
  "ValidateEnabledTools [''saved_list'', ''channels_list''] = None \<and>
   ValidateEnabledTools [''bogus'', ''saved_list'', ''users_search''] =
     Some (''invalid tool name(s): bogus, users_search. Valid tools are: conversations_history, conversations_replies, conversations_add_message, reactions_add, reactions_remove, attachment_get_data, conversations_search_messages, channels_list, usergroups_list, usergroups_me, usergroups_create, usergroups_update, usergroups_users_update, saved_list, saved_complete'')"
  using ValidateEnabledTools_spec [of "[''saved_list'', ''channels_list'']"]
        ValidateEnabledTools_spec [of "[''bogus'', ''saved_list'', ''users_search'']"]
  by (simp add: ValidToolNames_def tool_name_defs)

text \<open>Claim C1. With a bot OAuth token (\<open>IsBotToken\<close> true) the tool
  \<open>conversations_search_messages\<close> is not registered, whatever the allow-list and the
  environment are; with any other credential it is registered exactly when the default gating
  \<open>shouldAddTool\<close> (with no opt-in variable) admits it. The third part says the same of the
  server that \<open>NewMCPServer\<close> returns.\<close>

theorem search_not_registered_for_bot_token:
  "(IsBotToken provider \<longrightarrow>
      tools (registerTools env (IsBotToken provider) enabledTools server_NewMCPServer)
        ToolConversationsSearchMessages = None) \<and>
   (\<not> IsBotToken provider \<longrightarrow>
      (tools (registerTools env (IsBotToken provider) enabledTools server_NewMCPServer)
         ToolConversationsSearchMessages = Some Fn_ConversationsSearchHandler)
      = shouldAddTool env ToolConversationsSearchMessages enabledTools []) \<and>
   (NewMCPServer env provider text_Workspace enabledTools b = (Started srv, b') \<longrightarrow>
      tools srv ToolConversationsSearchMessages =
        (if \<not> IsBotToken provider \<and>
            (enabledTools = [] \<or> ToolConversationsSearchMessages \<in> set enabledTools)
         then Some Fn_ConversationsSearchHandler else None))"
  using NewMCPServer_tools [of env provider text_Workspace enabledTools b srv b']
  by (auto simp: registerTools_search shouldAddTool_def slices_Contains_iff)

theorem search_not_registered_for_bot_token_witness:
  "IsBotToken (exampleProvider True) \<and> \<not> IsBotToken (exampleProvider False) \<and>
   tools (registerTools [''SLACK_MCP_ADD_MESSAGE_TOOL'' \<mapsto> ''true''] True
            [ToolConversationsSearchMessages] server_NewMCPServer)
     ToolConversationsSearchMessages = None \<and>
   tools (registerTools Map.empty False [ToolConversationsSearchMessages] server_NewMCPServer)
     ToolConversationsSearchMessages = Some Fn_ConversationsSearchHandler \<and>
   (\<exists>srv b'.
      NewMCPServer Map.empty (exampleProvider True) (\<lambda>url. Inr ''acme'')
        [ToolConversationsSearchMessages] (exampleState []) = (Started srv, b') \<and>
      tools srv ToolConversationsSearchMessages = None)"
proof -
  have bot: "IsBotToken (exampleProvider True)" and user: "\<not> IsBotToken (exampleProvider False)"
    by (simp_all add: example_defs)
  obtain srv b' where st:
    "NewMCPServer Map.empty (exampleProvider True) (\<lambda>url. Inr ''acme'')
       [ToolConversationsSearchMessages] (exampleState []) = (Started srv, b')"
    by (simp add: NewMCPServer_def example_defs Let_def)
  have gate: "shouldAddTool Map.empty ToolConversationsSearchMessages
                [ToolConversationsSearchMessages] []"
    by (simp add: shouldAddTool_def)
  show ?thesis
    using bot user st gate
      search_not_registered_for_bot_token
        [of "exampleProvider True" "[''SLACK_MCP_ADD_MESSAGE_TOOL'' \<mapsto> ''true'']"
            "[ToolConversationsSearchMessages]"]
      search_not_registered_for_bot_token
        [of "exampleProvider False" Map.empty "[ToolConversationsSearchMessages]"]
      search_not_registered_for_bot_token
        [of "exampleProvider True" Map.empty "[ToolConversationsSearchMessages]"
            "\<lambda>url. Inr ''acme''" "exampleState []" srv b']
    by simp
qed

text \<open>Claim C6. Registration is a function of the configuration only: two runs with the same
  credential kind, the same allow-list and the same values of the environment variables that
  gate tools register the same tools with the same handlers, whatever else differs (other
  variables, the backend, its state, the caches); and \<open>shouldAddTool\<close> decides the same for
  the same inputs.\<close>

theorem registration_deterministic:
  assumes "IsBotToken provider1 = IsBotToken provider2"
    and "\<forall>v \<in> set gatingEnvVars. os_Getenv env1 v = os_Getenv env2 v"
  shows "registerTools env1 (IsBotToken provider1) enabledTools server_NewMCPServer
           = registerTools env2 (IsBotToken provider2) enabledTools server_NewMCPServer \<and>
         (\<forall>T E. os_Getenv env1 E = os_Getenv env2 E \<longrightarrow>
                shouldAddTool env1 T enabledTools E = shouldAddTool env2 T enabledTools E) \<and>
         (\<forall>srv1 srv2 c1 c2.
            NewMCPServer env1 provider1 tw1 enabledTools b1 = (Started srv1, c1) \<and>
            NewMCPServer env2 provider2 tw2 enabledTools b2 = (Started srv2, c2)
            \<longrightarrow> tools srv1 = tools srv2)"
proof (intro conjI allI impI)
  show r: "registerTools env1 (IsBotToken provider1) enabledTools server_NewMCPServer
        = registerTools env2 (IsBotToken provider2) enabledTools server_NewMCPServer"
    using assms registerTools_env_cong [of env1 env2 "IsBotToken provider2" enabledTools]
    by simp
  show "shouldAddTool env1 T enabledTools E = shouldAddTool env2 T enabledTools E"
    if "os_Getenv env1 E = os_Getenv env2 E" for T E
    using that by (intro shouldAddTool_env_cong) simp
  show "tools srv1 = tools srv2"
    if "NewMCPServer env1 provider1 tw1 enabledTools b1 = (Started srv1, c1) \<and>
        NewMCPServer env2 provider2 tw2 enabledTools b2 = (Started srv2, c2)"
    for srv1 srv2 c1 c2
    using that r NewMCPServer_tools [of env1 provider1 tw1 enabledTools b1 srv1 c1]
      NewMCPServer_tools [of env2 provider2 tw2 enabledTools b2 srv2 c2]
    by simp
qed

theorem registration_deterministic_witness:
  "IsBotToken (exampleProvider False) = IsBotToken ((exampleProvider False)\<lparr>ProvideUsersMap := Some \<lparr>Users = Map.empty\<rparr>\<rparr>) \<and>
   map (os_Getenv [''SLACK_MCP_REACTION_TOOL'' \<mapsto> ''1'']) gatingEnvVars
     = map (os_Getenv [''SLACK_MCP_REACTION_TOOL'' \<mapsto> ''1'', ''HOME'' \<mapsto> ''/root''])
         gatingEnvVars \<and>
   registerTools [''SLACK_MCP_REACTION_TOOL'' \<mapsto> ''1''] False [] server_NewMCPServer
     = registerTools [''SLACK_MCP_REACTION_TOOL'' \<mapsto> ''1'', ''HOME'' \<mapsto> ''/root''] False []
         server_NewMCPServer \<and>
   (\<exists>srv1 srv2 c1 c2.
      NewMCPServer [''SLACK_MCP_REACTION_TOOL'' \<mapsto> ''1''] (exampleProvider False)
        (\<lambda>url. Inr ''acme'') [] (exampleState []) = (Started srv1, c1) \<and>
      NewMCPServer [''SLACK_MCP_REACTION_TOOL'' \<mapsto> ''1'', ''HOME'' \<mapsto> ''/root'']
        ((exampleProvider False)\<lparr>ProvideUsersMap := Some \<lparr>Users = Map.empty\<rparr>\<rparr>)
        (\<lambda>url. Inr ''other'') [] (exampleState [Inl ''x'']) = (Started srv2, c2) \<and>
      tools srv1 = tools srv2 \<and> tools srv1 ToolReactionsAdd = Some Fn_ReactionsAddHandler)"
proof -
  let ?e1 = "[''SLACK_MCP_REACTION_TOOL'' \<mapsto> ''1'']"
  let ?e2 = "[''SLACK_MCP_REACTION_TOOL'' \<mapsto> ''1'', ''HOME'' \<mapsto> ''/root'']"
  let ?p2 = "(exampleProvider False)\<lparr>ProvideUsersMap := Some \<lparr>Users = Map.empty\<rparr>\<rparr>"
  have h1: "IsBotToken (exampleProvider False) = IsBotToken ?p2"
    by simp
  have h2: "\<forall>v \<in> set gatingEnvVars. os_Getenv ?e1 v = os_Getenv ?e2 v"
    by (simp add: gatingEnvVars_def os_Getenv_def)
  obtain srv1 c1 where s1:
    "NewMCPServer ?e1 (exampleProvider False) (\<lambda>url. Inr ''acme'') [] (exampleState [])
       = (Started srv1, c1)"
    by (simp add: NewMCPServer_def example_defs Let_def)
  obtain srv2 c2 where s2:
    "NewMCPServer ?e2 ?p2 (\<lambda>url. Inr ''other'') [] (exampleState [Inl ''x''])
       = (Started srv2, c2)"
    by (simp add: NewMCPServer_def example_defs Let_def)
  have r: "tools (registerTools ?e1 False [] server_NewMCPServer) ToolReactionsAdd
             = Some Fn_ReactionsAddHandler"
    unfolding registerTools_def Let_def
    by (simp add: tools_AddToolIf tools_AddTool tool_name_defs shouldAddTool_def os_Getenv_def)
  have b: "IsBotToken (exampleProvider False) = False" by (simp add: example_defs)
  note d = registration_deterministic [OF h1 h2, of "[]" "\<lambda>url. Inr ''acme''" "exampleState []"
             "\<lambda>url. Inr ''other''" "exampleState [Inl ''x'']"]
  have b2: "IsBotToken ?p2 = False" by (simp add: example_defs)
  from d have "registerTools ?e1 (IsBotToken (exampleProvider False)) [] server_NewMCPServer
      = registerTools ?e2 (IsBotToken ?p2) [] server_NewMCPServer"
    by (rule conjunct1)
  then have eq: "registerTools ?e1 False [] server_NewMCPServer
      = registerTools ?e2 False [] server_NewMCPServer"
    by (simp only: b b2)
  from d s1 s2 have t: "tools srv1 = tools srv2" by blast
  from NewMCPServer_tools [OF s1] r b
  have ra: "tools srv1 ToolReactionsAdd = Some Fn_ReactionsAddHandler" by simp
  have m: "map (os_Getenv ?e1) gatingEnvVars = map (os_Getenv ?e2) gatingEnvVars"
    by (simp add: gatingEnvVars_def os_Getenv_def)
  from s1 s2 t ra have ex: "\<exists>srv1 srv2 c1 c2.
      NewMCPServer ?e1 (exampleProvider False) (\<lambda>url. Inr ''acme'') [] (exampleState [])
        = (Started srv1, c1) \<and>
      NewMCPServer ?e2 ?p2 (\<lambda>url. Inr ''other'') [] (exampleState [Inl ''x''])
        = (Started srv2, c2) \<and>
      tools srv1 = tools srv2 \<and> tools srv1 ToolReactionsAdd = Some Fn_ReactionsAddHandler"
    by blast
  from h1 m eq ex show ?thesis by (intro conjI)
qed

text \<open>Claim C2. When the tool handler returns an error, the error-recovery middleware returns
  a tool result with \<open>isError\<close> set and a nil error. The text of that result is the token-refresh
  message, written out below around the handler's error message, if and only if this message
  contains one of \<open>invalid_auth\<close>, \<open>not_authed\<close>, \<open>token_expired\<close>, \<open>token_revoked\<close>; otherwise
  it is the handler's error message unchanged.\<close>

theorem error_recovery_middleware:
  assumes "next req b = (Return (res, Some err), b')"
  shows "\<exists>msg. buildErrorRecoveryMiddleware next req b
                 = (Return (Some \<lparr>Content = [msg], IsError = True\<rparr>, None), b') \<and>
               ((\<exists>e \<in> set [''invalid_auth'', ''not_authed'', ''token_expired'',
                             ''token_revoked''].
                   \<exists>pre post. err = pre @ e @ post) \<longrightarrow>
                  msg = ''Slack authentication failed ('' @ err @ ''). Your xoxc/xoxd browser session tokens have expired. Run the /slack-token-refresh skill to automatically refresh them.'') \<and>
               (\<not> (\<exists>e \<in> set [''invalid_auth'', ''not_authed'', ''token_expired'',
                               ''token_revoked''].
                     \<exists>pre post. err = pre @ e @ post) \<longrightarrow>
                  msg = err) \<and>
               (msg = ''Slack authentication failed ('' @ err @ ''). Your xoxc/xoxd browser session tokens have expired. Run the /slack-token-refresh skill to automatically refresh them.'' \<longleftrightarrow>
                  (\<exists>e \<in> set [''invalid_auth'', ''not_authed'', ''token_expired'',
                               ''token_revoked''].
                     \<exists>pre post. err = pre @ e @ post))"
proof -
  let ?auth = "\<exists>e \<in> set [''invalid_auth'', ''not_authed'', ''token_expired'', ''token_revoked''].
                 \<exists>pre post. err = pre @ e @ post"
  let ?msg = "if isSlackAuthError err then authFailedMessage err else err"
  have r: "buildErrorRecoveryMiddleware next req b
             = (Return (Some \<lparr>Content = [?msg], IsError = True\<rparr>, None), b')"
    using assms by (simp add: buildErrorRecoveryMiddleware_error NewToolResultError_def)
  have i: "isSlackAuthError err \<longleftrightarrow> ?auth" by (rule isSlackAuthError_iff)
  have n: "err \<noteq> authFailedMessage err"
    using authFailedMessage_neq [of err] by (rule not_sym)
  have 1: "?auth \<longrightarrow> ?msg = authFailedMessage err" using i by simp
  have 2: "\<not> ?auth \<longrightarrow> ?msg = err" using i by simp
  have 3: "?msg = authFailedMessage err \<longleftrightarrow> ?auth" using i n by simp
  have "\<exists>msg. buildErrorRecoveryMiddleware next req b
                 = (Return (Some \<lparr>Content = [msg], IsError = True\<rparr>, None), b') \<and>
               (?auth \<longrightarrow> msg = authFailedMessage err) \<and> (\<not> ?auth \<longrightarrow> msg = err) \<and>
               (msg = authFailedMessage err \<longleftrightarrow> ?auth)"
    using r 1 2 3 by (intro exI [of _ ?msg] conjI)
  then show ?thesis unfolding authFailedMessage_def .
qed


theorem error_recovery_middleware_witness:
  "buildErrorRecoveryMiddleware (\<lambda>req b. (Return (None, Some ''slack: token_expired''), b))
     \<lparr>Name = ''saved_list'', Arguments = Map.empty\<rparr> (0::nat)
     = (Return (Some \<lparr>Content = [''Slack authentication failed (slack: token_expired). Your xoxc/xoxd browser session tokens have expired. Run the /slack-token-refresh skill to automatically refresh them.''], IsError = True\<rparr>, None), 0) \<and>
   buildErrorRecoveryMiddleware (\<lambda>req b. (Return (None, Some ''channel is required''), b))
     \<lparr>Name = ''saved_complete'', Arguments = Map.empty\<rparr> (0::nat)
     = (Return (Some \<lparr>Content = [''channel is required''], IsError = True\<rparr>, None), 0)"
proof -
  let ?h1 = "\<lambda>(req::CallToolRequest) (b::nat).
               (Return (None::CallToolResult option, Some ''slack: token_expired''), b)"
  let ?h2 = "\<lambda>(req::CallToolRequest) (b::nat).
               (Return (None::CallToolResult option, Some ''channel is required''), b)"
  let ?r1 = "\<lparr>Name = ''saved_list'', Arguments = Map.empty\<rparr>"
  let ?r2 = "\<lparr>Name = ''saved_complete'', Arguments = Map.empty\<rparr>"
  have c1: "isSlackAuthError ''slack: token_expired''"
    by (simp add: isSlackAuthError_def authErrors_def)
  have n2: "\<not> isSlackAuthError ''channel is required''"
    by (simp add: isSlackAuthError_def authErrors_def)
  have "buildErrorRecoveryMiddleware ?h1 ?r1 0
          = (Return (Some \<lparr>Content = [''Slack authentication failed ('' @ ''slack: token_expired'' @ ''). Your xoxc/xoxd browser session tokens have expired. Run the /slack-token-refresh skill to automatically refresh them.''], IsError = True\<rparr>, None), 0)"
    using error_recovery_middleware [of ?h1 ?r1 0 None "''slack: token_expired''" 0] c1
    unfolding isSlackAuthError_iff by auto
  moreover have "buildErrorRecoveryMiddleware ?h2 ?r2 0
          = (Return (Some \<lparr>Content = [''channel is required''], IsError = True\<rparr>, None), 0)"
    using error_recovery_middleware [of ?h2 ?r2 0 None "''channel is required''" 0] n2
    unfolding isSlackAuthError_iff by auto
  ultimately show ?thesis by simp
qed





text \<open>Claim C8. \<open>SavedCompleteHandler\<close> checks its parameters before it calls the backend. It
  returns the error \<open>channel is required\<close> when \<open>channel\<close> is empty, and the error \<open>ts is
  required\<close> when \<open>ts\<close> is empty (the channel is checked first, so with both empty the error
  names the channel); in both cases the backend is left as it was, and a backend that records
  its calls has recorded none. With both parameters non-empty and a successful
  \<open>SavedCompleteContext\<close> the result is the text \<open>Item marked as complete.\<close>\<close>

theorem SavedCompleteHandler_validates_first:
  "(GetString request ''channel'' [] = [] \<longrightarrow>
      SavedCompleteHandler h request b = ((None, Some ''channel is required''), b)) \<and>
   (GetString request ''channel'' [] \<noteq> [] \<and> GetString request ''ts'' [] = [] \<longrightarrow>
      SavedCompleteHandler h request b = ((None, Some ''ts is required''), b)) \<and>
   (GetString request ''ts'' [] = [] \<longrightarrow>
      (\<exists>e \<in> {''channel is required'', ''ts is required''}.
         SavedCompleteHandler h request b = ((None, Some e), b))) \<and>
   (GetString request ''channel'' [] = [] \<or> GetString request ''ts'' [] = [] \<longrightarrow>
      (\<forall>sc c. Slack (apiProvider h') = scriptedAPI sc \<longrightarrow>
         calls (snd (SavedCompleteHandler h' request c)) = calls c)) \<and>
   (GetString request ''channel'' [] \<noteq> [] \<and> GetString request ''ts'' [] \<noteq> [] \<and>
    SavedCompleteContext (Slack (apiProvider h)) (GetString request ''channel'' [])
      (GetString request ''ts'' []) b = (None, b') \<longrightarrow>
      SavedCompleteHandler h request b
        = ((Some (NewToolResultText ''Item marked as complete.''), None), b') \<and>
      Content (NewToolResultText ''Item marked as complete.'') = [''Item marked as complete.''] \<and>
      \<not> IsError (NewToolResultText ''Item marked as complete.''))"
  by (auto simp: SavedCompleteHandler_def Let_def NewToolResultText_def)

theorem SavedCompleteHandler_validates_first_witness:
  "SavedCompleteHandler \<lparr>apiProvider = scriptedProvider exampleScript\<rparr>
     \<lparr>Name = ''saved_complete'', Arguments = [''ts'' \<mapsto> StringArg ''1.2'']\<rparr> (exampleState [])
     = ((None, Some ''channel is required''), \<lparr>pending = [], calls = []\<rparr>) \<and>
   SavedCompleteHandler \<lparr>apiProvider = scriptedProvider exampleScript\<rparr>
     \<lparr>Name = ''saved_complete'', Arguments = [''channel'' \<mapsto> StringArg ''C1'']\<rparr> (exampleState [])
     = ((None, Some ''ts is required''), \<lparr>pending = [], calls = []\<rparr>) \<and>
   SavedCompleteHandler \<lparr>apiProvider = scriptedProvider exampleScript\<rparr>
     \<lparr>Name = ''saved_complete'',
      Arguments = [''channel'' \<mapsto> StringArg ''C1'', ''ts'' \<mapsto> StringArg ''1.2'']\<rparr> (exampleState [])
     = ((Some (NewToolResultText ''Item marked as complete.''), None),
        \<lparr>pending = [], calls = [Call_SavedComplete ''C1'' ''1.2'']\<rparr>)"
proof -
  let ?h = "\<lparr>apiProvider = scriptedProvider exampleScript\<rparr>"
  let ?r1 = "\<lparr>Name = ''saved_complete'', Arguments = [''ts'' \<mapsto> StringArg ''1.2'']\<rparr>"
  let ?r2 = "\<lparr>Name = ''saved_complete'', Arguments = [''channel'' \<mapsto> StringArg ''C1'']\<rparr>"
  let ?r3 = "\<lparr>Name = ''saved_complete'',
      Arguments = [''channel'' \<mapsto> StringArg ''C1'', ''ts'' \<mapsto> StringArg ''1.2'']\<rparr>"
  let ?c' = "\<lparr>pending = [], calls = [Call_SavedComplete ''C1'' ''1.2'']\<rparr>"
  have g1: "GetString ?r1 ''channel'' [] = []"
    and g2: "GetString ?r2 ''channel'' [] = ''C1''" "GetString ?r2 ''ts'' [] = []"
    and g3: "GetString ?r3 ''channel'' [] = ''C1''" "GetString ?r3 ''ts'' [] = ''1.2''"
    by (simp_all add: GetString_def)
  have s: "Slack (apiProvider ?h) = scriptedAPI exampleScript"
    by (simp add: scriptedProvider_def)
  have b: "SavedCompleteContext (Slack (apiProvider ?h)) ''C1'' ''1.2'' (exampleState [])
             = (None, ?c')"
    by (simp add: example_defs)
  from SavedCompleteHandler_validates_first [of ?r1 ?h "exampleState []" ?h] g1 s
  have "SavedCompleteHandler ?h ?r1 (exampleState []) = ((None, Some ''channel is required''),
          \<lparr>pending = [], calls = []\<rparr>)"
    by (simp add: exampleState_def)
  moreover from SavedCompleteHandler_validates_first [of ?r2 ?h "exampleState []" ?h] g2 s
  have "SavedCompleteHandler ?h ?r2 (exampleState []) = ((None, Some ''ts is required''),
          \<lparr>pending = [], calls = []\<rparr>)"
    by (simp add: exampleState_def)
  moreover from SavedCompleteHandler_validates_first [of ?r3 ?h "exampleState []" ?h ?c'] g3 b
  have "SavedCompleteHandler ?h ?r3 (exampleState [])
          = ((Some (NewToolResultText ''Item marked as complete.''), None), ?c')"
    by simp
  ultimately show ?thesis by simp
qed

text \<open>Claim C9. \<open>fetchMessageText\<close> always returns, and degrades to empty output: it returns
  the pair of empty strings when the history call fails or yields no message. Otherwise it
  returns the author and the text of the first message: the author is the \<open>RealName\<close> found for
  the user ID in the users cache, and the raw user ID when there is no cache or no entry; the
  text has no newline left, and for message text in Slack's format (plain text without \<^verbatim>\<open><\<close>
  interleaved with markup \<^verbatim>\<open><url|label>\<close> or \<^verbatim>\<open><url>\<close>) it is that text with every markup
  replaced by its url and every newline by a space.\<close>

theorem fetchMessageText_total_and_degrades:
  "(\<forall>err b'.
      GetConversationHistoryContext (Slack (apiProvider h))
        \<lparr>ChannelID = channelID, Latest = ts, Oldest = ts, Limit = 1, Inclusive = True\<rparr> b = (Inl err, b') \<longrightarrow>
      fetchMessageText h channelID ts usersCache b = (([], []), b')) \<and>
   (\<forall>history b'.
      GetConversationHistoryContext (Slack (apiProvider h))
        \<lparr>ChannelID = channelID, Latest = ts, Oldest = ts, Limit = 1, Inclusive = True\<rparr> b = (Inr history, b') \<and> Messages history = [] \<longrightarrow>
      fetchMessageText h channelID ts usersCache b = (([], []), b')) \<and>
   (\<forall>history b' msg rest.
      GetConversationHistoryContext (Slack (apiProvider h))
        \<lparr>ChannelID = channelID, Latest = ts, Oldest = ts, Limit = 1, Inclusive = True\<rparr> b = (Inr history, b') \<and> Messages history = msg # rest \<longrightarrow>
      (\<exists>userName text.
         fetchMessageText h channelID ts usersCache b = ((userName, text), b') \<and>
         (usersCache = None \<longrightarrow> userName = MsgUser msg) \<and>
         (\<forall>uc. usersCache = Some uc \<longrightarrow>
            (\<forall>u. Users uc (MsgUser msg) = Some u \<longrightarrow> userName = RealName u) \<and>
            (Users uc (MsgUser msg) = None \<longrightarrow> userName = MsgUser msg)) \<and>
         CHR 0x0A \<notin> set text \<and>
         (\<forall>segs. (\<forall>seg \<in> set segs. wf_segment seg) \<and> MsgText msg = concat (map markup segs) \<longrightarrow>
            text = map (\<lambda>x. if x = CHR 0x0A then CHR '' '' else x) (concat (map bare segs)))))"
  by (auto simp: fetchMessageText_error fetchMessageText_empty fetchMessageText_message
      strings_ReplaceAll_byte_no_newline slackLinkRe_ReplaceAllString_segments
      strings_ReplaceAll_byte_newline)

theorem fetchMessageText_total_and_degrades_witness:
  "fetchMessageText \<lparr>apiProvider = scriptedProvider exampleScript\<rparr> ''C1'' ''1.2''
     (Some \<lparr>Users = [''U1'' \<mapsto> \<lparr>RealName = ''Ann Lee''\<rparr>]\<rparr>) (exampleState [])
     = ((''Ann Lee'', ''see https://a.example/x and http://b.example''),
        \<lparr>pending = [],
         calls = [Call_History \<lparr>ChannelID = ''C1'', Latest = ''1.2'', Oldest = ''1.2'',
                                 Limit = 1, Inclusive = True\<rparr>]\<rparr>) \<and>
   fetchMessageText \<lparr>apiProvider = scriptedProvider exampleScript\<rparr> ''C1'' ''1.2'' None
     (exampleState [])
     = ((''U1'', ''see https://a.example/x and http://b.example''),
        \<lparr>pending = [],
         calls = [Call_History \<lparr>ChannelID = ''C1'', Latest = ''1.2'', Oldest = ''1.2'',
                                 Limit = 1, Inclusive = True\<rparr>]\<rparr>) \<and>
   fetchMessageText
     \<lparr>apiProvider = scriptedProvider
        (exampleScript\<lparr>historyResult := (\<lambda>params. Inl ''channel_not_found'')\<rparr>)\<rparr>
     ''C1'' ''1.2'' None (exampleState [])
     = (([], []),
        \<lparr>pending = [],
         calls = [Call_History \<lparr>ChannelID = ''C1'', Latest = ''1.2'', Oldest = ''1.2'',
                                 Limit = 1, Inclusive = True\<rparr>]\<rparr>) \<and>
   fetchMessageText
     \<lparr>apiProvider = scriptedProvider
        (exampleScript\<lparr>historyResult := (\<lambda>params. Inr \<lparr>Messages = []\<rparr>)\<rparr>)\<rparr>
     ''C1'' ''1.2'' None (exampleState [])
     = (([], []),
        \<lparr>pending = [],
         calls = [Call_History \<lparr>ChannelID = ''C1'', Latest = ''1.2'', Oldest = ''1.2'',
                                 Limit = 1, Inclusive = True\<rparr>]\<rparr>)"
proof -
  let ?h = "\<lparr>apiProvider = scriptedProvider exampleScript\<rparr>"
  let ?he = "\<lparr>apiProvider = scriptedProvider
        (exampleScript\<lparr>historyResult := (\<lambda>params. Inl ''channel_not_found'')\<rparr>)\<rparr>"
  let ?hn = "\<lparr>apiProvider = scriptedProvider
        (exampleScript\<lparr>historyResult := (\<lambda>params. Inr \<lparr>Messages = []\<rparr>)\<rparr>)\<rparr>"
  let ?uc = "\<lparr>Users = [''U1'' \<mapsto> \<lparr>RealName = ''Ann Lee''\<rparr>]\<rparr>"
  let ?params = "\<lparr>ChannelID = ''C1'', Latest = ''1.2'', Oldest = ''1.2'', Limit = 1,
                   Inclusive = True\<rparr>"
  let ?b' = "\<lparr>pending = [], calls = [Call_History ?params]\<rparr>"
  let ?msg = "\<lparr>MsgUser = ''U1'',
               MsgText = ''see <https://a.example/x|the doc>'' @ [CHR 0x0A]
                         @ ''and <http://b.example>''\<rparr>"
  let ?segs = "[Plain ''see '', Link ''https://a.example/x'' ''the doc'',
                Plain (CHR 0x0A # ''and ''), BareLink ''http://b.example'']"
  have c: "GetConversationHistoryContext (Slack (apiProvider ?h)) ?params (exampleState [])
             = (Inr \<lparr>Messages = [?msg]\<rparr>, ?b')"
    by (simp add: example_defs)
  have ce: "GetConversationHistoryContext (Slack (apiProvider ?he)) ?params (exampleState [])
             = (Inl ''channel_not_found'', ?b')"
    by (simp add: example_defs)
  have cn: "GetConversationHistoryContext (Slack (apiProvider ?hn)) ?params (exampleState [])
             = (Inr \<lparr>Messages = []\<rparr>, ?b')"
    by (simp add: example_defs)
  have w: "\<forall>seg \<in> set ?segs. wf_segment seg" by simp
  have m: "MsgText ?msg = concat (map markup ?segs)" by simp
  have r: "map (\<lambda>x. if x = CHR 0x0A then CHR '' '' else x) (concat (map bare ?segs))
             = ''see https://a.example/x and http://b.example''"
    by simp
  have p: "GetConversationHistoryContext (Slack (apiProvider ?h)) ?params (exampleState [])
             = (Inr \<lparr>Messages = [?msg]\<rparr>, ?b') \<and>
           Messages \<lparr>Messages = [?msg]\<rparr> = ?msg # []"
    using c by simp
  note some = fetchMessageText_total_and_degrades
    [of ?h "''C1''" "''1.2''" "exampleState []" "Some ?uc",
     THEN conjunct2, THEN conjunct2, rule_format, OF p]
  note none = fetchMessageText_total_and_degrades
    [of ?h "''C1''" "''1.2''" "exampleState []" None,
     THEN conjunct2, THEN conjunct2, rule_format, OF p]
  from some obtain userName msgText where
    f: "fetchMessageText ?h ''C1'' ''1.2'' (Some ?uc) (exampleState []) = ((userName, msgText), ?b')"
    and u: "\<forall>uc. Some ?uc = Some uc \<longrightarrow>
            (\<forall>u. Users uc (MsgUser ?msg) = Some u \<longrightarrow> userName = RealName u) \<and>
            (Users uc (MsgUser ?msg) = None \<longrightarrow> userName = MsgUser ?msg)"
    and t: "\<forall>segs. (\<forall>seg \<in> set segs. wf_segment seg) \<and> MsgText ?msg = concat (map markup segs) \<longrightarrow>
            msgText = map (\<lambda>x. if x = CHR 0x0A then CHR '' '' else x) (concat (map bare segs))"
    by blast
  from u have "userName = ''Ann Lee''" by simp
  moreover from t w m have
    "msgText = map (\<lambda>x. if x = CHR 0x0A then CHR '' '' else x) (concat (map bare ?segs))"
    by blast
  ultimately have 1: "fetchMessageText ?h ''C1'' ''1.2'' (Some ?uc) (exampleState [])
      = ((''Ann Lee'', ''see https://a.example/x and http://b.example''), ?b')"
    using f r by simp
  from none obtain userName' msgText' where
    f': "fetchMessageText ?h ''C1'' ''1.2'' None (exampleState []) = ((userName', msgText'), ?b')"
    and u': "None = (None :: UsersCache option) \<longrightarrow> userName' = MsgUser ?msg"
    and t': "\<forall>segs. (\<forall>seg \<in> set segs. wf_segment seg) \<and> MsgText ?msg = concat (map markup segs) \<longrightarrow>
            msgText' = map (\<lambda>x. if x = CHR 0x0A then CHR '' '' else x) (concat (map bare segs))"
    by blast
  from t' w m have
    "msgText' = map (\<lambda>x. if x = CHR 0x0A then CHR '' '' else x) (concat (map bare ?segs))"
    by blast
  with f' u' r have 2: "fetchMessageText ?h ''C1'' ''1.2'' None (exampleState [])
      = ((''U1'', ''see https://a.example/x and http://b.example''), ?b')"
    by simp
  from fetchMessageText_total_and_degrades
    [of ?he "''C1''" "''1.2''" "exampleState []" None, THEN conjunct1, rule_format, OF ce]
  have 3: "fetchMessageText ?he ''C1'' ''1.2'' None (exampleState []) = (([], []), ?b')" .
  have pn: "GetConversationHistoryContext (Slack (apiProvider ?hn)) ?params (exampleState [])
             = (Inr \<lparr>Messages = []\<rparr>, ?b') \<and> Messages \<lparr>Messages = []\<rparr> = []"
    using cn by simp
  from fetchMessageText_total_and_degrades
    [of ?hn "''C1''" "''1.2''" "exampleState []" None, THEN conjunct2, THEN conjunct1,
     rule_format, OF pn]
  have 4: "fetchMessageText ?hn ''C1'' ''1.2'' None (exampleState []) = (([], []), ?b')" .
  from 1 2 3 4 show ?thesis by blast
qed

text \<open>Claim C5. The saved-items list operation runs cursor-based pagination to completion.
  Whenever the backend, asked with the request's cursor and then with the next-cursor of each
  answer, serves a sequence of pages of which the last, and only the last, has the empty
  next-cursor, the loop returns after exactly these requests with the items of all pages
  concatenated in fetch order, and the handler produces one row for each of these items, in
  this order. Conversely the loop returns its items only after such a run, that is, only once
  an answer has the empty next-cursor.\<close>

theorem SavedListHandler_paginates_to_completion:
  "(pagesServed (Slack (apiProvider h)) (GetString request ''cursor'' []) b ps b1 \<longrightarrow>
      SavedList_fetchAll h (GetString request ''cursor'' []) [] b
        = Some (Inr (concat (map SavedItems ps)), b1) \<and>
      (\<exists>rows b3.
         SavedListHandler h lib request b
           = Some ((case gocsv_MarshalBytes lib rows of
                      Inl err \<Rightarrow> (None, Some err)
                    | Inr csvBytes \<Rightarrow> (Some (NewToolResultText csvBytes), None)), b3) \<and>
         map Channel rows = map ItemID (concat (map SavedItems ps)) \<and>
         map Ts rows = map ItemTs (concat (map SavedItems ps)) \<and>
         map State rows = map ItemState (concat (map SavedItems ps)))) \<and>
   (\<forall>items bf.
      SavedList_fetchAll h (GetString request ''cursor'' []) [] b = Some (Inr items, bf) \<longrightarrow>
      (\<exists>qs. pagesServed (Slack (apiProvider h)) (GetString request ''cursor'' []) b qs bf \<and>
            items = concat (map SavedItems qs)))"
proof (intro conjI impI allI)
  assume s: "pagesServed (Slack (apiProvider h)) (GetString request ''cursor'' []) b ps b1"
  let ?items = "concat (map SavedItems ps)"
  show f: "SavedList_fetchAll h (GetString request ''cursor'' []) [] b = Some (Inr ?items, b1)"
    using SavedList_fetchAll_pagesServed [OF s, of "[]"] by simp
  obtain ws b2 where a:
    "(case AuthTest (Slack (apiProvider h)) b1 of
        (Inr authResp, b2) \<Rightarrow> (strings_TrimRight (URL authResp) ''/'', b2)
      | (Inl err, b2) \<Rightarrow> ([], b2)) = (ws, b2)"
    by (meson surj_pair)
  obtain rows b3 where r:
    "SavedList_rows h lib ws (ProvideChannelsMaps (apiProvider h))
       (ProvideUsersMap (apiProvider h)) ?items b2 = (rows, b3)"
    by (meson surj_pair)
  have "SavedListHandler h lib request b
           = Some ((case gocsv_MarshalBytes lib rows of
                      Inl err \<Rightarrow> (None, Some err)
                    | Inr csvBytes \<Rightarrow> (Some (NewToolResultText csvBytes), None)), b3)"
    using f a r by (simp add: SavedListHandler_def split: sum.splits)
  with SavedList_rows_fields [OF r]
  show "\<exists>rows b3.
         SavedListHandler h lib request b
           = Some ((case gocsv_MarshalBytes lib rows of
                      Inl err \<Rightarrow> (None, Some err)
                    | Inr csvBytes \<Rightarrow> (Some (NewToolResultText csvBytes), None)), b3) \<and>
         map Channel rows = map ItemID ?items \<and>
         map Ts rows = map ItemTs ?items \<and>
         map State rows = map ItemState ?items"
    by blast
next
  fix items bf
  assume "SavedList_fetchAll h (GetString request ''cursor'' []) [] b = Some (Inr items, bf)"
  from SavedList_fetchAll_Some_pages [OF this]
  show "\<exists>qs. pagesServed (Slack (apiProvider h)) (GetString request ''cursor'' []) b qs bf \<and>
            items = concat (map SavedItems qs)"
    by simp
qed

theorem SavedListHandler_paginates_to_completion_witness:
  "SavedList_fetchAll \<lparr>apiProvider = scriptedProvider exampleScript\<rparr> [] []
     (exampleState [Inr examplePage1, Inr examplePage2, Inr examplePage1])
     = Some (Inr (SavedItems examplePage1 @ SavedItems examplePage2),
             \<lparr>pending = [Inr examplePage1],
              calls = [Call_SavedList [], Call_SavedList ''page2'']\<rparr>) \<and>
   (\<exists>(rows :: SavedItemRow list) b3.
      SavedListHandler \<lparr>apiProvider = scriptedProvider exampleScript\<rparr> exampleLib
        \<lparr>Name = ''saved_list'', Arguments = Map.empty\<rparr>
        (exampleState [Inr examplePage1, Inr examplePage2, Inr examplePage1])
        = Some ((Some (NewToolResultText (strings_Join (map Channel rows) '','')), None), b3) \<and>
      map Channel rows = [''C1'', ''C2'', ''D3''])"
proof -
  let ?h = "\<lparr>apiProvider = scriptedProvider exampleScript\<rparr>"
  let ?req = "\<lparr>Name = ''saved_list'', Arguments = Map.empty\<rparr>"
  let ?b = "exampleState [Inr examplePage1, Inr examplePage2, Inr examplePage1]"
  let ?b1 = "\<lparr>pending = [Inr examplePage1],
              calls = [Call_SavedList [], Call_SavedList ''page2'']\<rparr>"
  have g: "GetString ?req ''cursor'' [] = []" by (simp add: GetString_def)
  have s: "pagesServed (Slack (apiProvider ?h)) (GetString ?req ''cursor'' []) ?b
             [examplePage1, examplePage2] ?b1"
    by (simp add: g example_defs examplePage1_def examplePage2_def)
  note t = SavedListHandler_paginates_to_completion
    [of ?h ?req ?b "[examplePage1, examplePage2]" ?b1 exampleLib, THEN conjunct1, rule_format, OF s]
  from t have 1: "SavedList_fetchAll ?h [] [] ?b
     = Some (Inr (SavedItems examplePage1 @ SavedItems examplePage2), ?b1)"
    by (simp add: g)
  from t obtain rows b3 where
    r: "SavedListHandler ?h exampleLib ?req ?b
           = Some ((case gocsv_MarshalBytes exampleLib rows of
                      Inl err \<Rightarrow> (None, Some err)
                    | Inr csvBytes \<Rightarrow> (Some (NewToolResultText csvBytes), None)), b3)"
    and c: "map Channel rows = map ItemID (concat (map SavedItems [examplePage1, examplePage2]))"
    by blast
  from c have c': "map Channel rows = [''C1'', ''C2'', ''D3'']"
    by (simp add: examplePage1_def examplePage2_def)
  from r have r': "SavedListHandler ?h exampleLib ?req ?b
        = Some ((Some (NewToolResultText (strings_Join (map Channel rows) '','')), None), b3)"
    by (simp add: exampleLib_def)
  have "\<exists>(rows :: SavedItemRow list) b3. SavedListHandler ?h exampleLib ?req ?b
        = Some ((Some (NewToolResultText (strings_Join (map Channel rows) '','')), None), b3) \<and>
      map Channel rows = [''C1'', ''C2'', ''D3'']"
  proof (intro exI conjI)
    show "SavedListHandler ?h exampleLib ?req ?b
        = Some ((Some (NewToolResultText (strings_Join (map Channel rows) '','')), None), b3)"
      by (fact r')
    show "map Channel rows = [''C1'', ''C2'', ''D3'']" by (fact c')
  qed
  with 1 show ?thesis by (intro conjI)
qed

text \<open>Claim C7. Startup readiness policy. In the pipe-based transport the server accepts
  operations only once both directory caches report ready: a serving attempt succeeds exactly
  when both watchers have finished before it (or serving had begun already), so it blocks
  until then. In the transports with a handshake of their own, serving begins at once, from the
  cold start, and a read operation that needs the cache returns the not-ready error of the
  first directory that is still cold, and goes on once both are warm: the error is one to
  retry.\<close>

theorem startup_readiness_policy:
  "(accepting (boot_run Stdio evs) \<longrightarrow>
      usersReady (boot_run Stdio evs) \<and> channelsReady (boot_run Stdio evs)) \<and>
   (accepting (boot_run Stdio (evs @ [Serve])) \<longleftrightarrow>
      accepting (boot_run Stdio evs) \<or>
      (UsersWarmed \<in> set evs \<and> ChannelsWarmed \<in> set evs)) \<and>
   (t \<noteq> Stdio \<longrightarrow> accepting (boot_run t [Serve])) \<and>
   (t \<noteq> Stdio \<and> accepting (boot_run t evs) \<longrightarrow>
      cacheReadOperation (boot_run t evs) =
        (if UsersWarmed \<notin> set evs then Some (Inl ErrUsersNotReady)
         else if ChannelsWarmed \<notin> set evs then Some (Inl ErrChannelsNotReady)
         else Some (Inr ())))"
proof (intro conjI impI)
  show "accepting (boot_run Stdio evs) \<Longrightarrow> usersReady (boot_run Stdio evs)"
    and "accepting (boot_run Stdio evs) \<Longrightarrow> channelsReady (boot_run Stdio evs)"
    using boot_run_stdio_inv [of evs] by simp_all
  show "accepting (boot_run Stdio (evs @ [Serve])) \<longleftrightarrow>
      accepting (boot_run Stdio evs) \<or> (UsersWarmed \<in> set evs \<and> ChannelsWarmed \<in> set evs)"
    by (simp only: boot_run_stdio_serve boot_run_ready)
  show "t \<noteq> Stdio \<Longrightarrow> accepting (boot_run t [Serve])"
    by (cases t) (simp_all add: boot_run_def boot_init_def)
  show "cacheReadOperation (boot_run t evs) =
        (if UsersWarmed \<notin> set evs then Some (Inl ErrUsersNotReady)
         else if ChannelsWarmed \<notin> set evs then Some (Inl ErrChannelsNotReady)
         else Some (Inr ()))"
    if "t \<noteq> Stdio \<and> accepting (boot_run t evs)"
    using that boot_run_ready [of t evs]
    by (simp add: cacheReadOperation_def IsReady_def)
qed

theorem startup_readiness_policy_witness:
  "\<not> accepting (boot_run Stdio [Serve, UsersWarmed, Serve]) \<and>
   accepting (boot_run Stdio [Serve, UsersWarmed, Serve, ChannelsWarmed, Serve]) \<and>
   accepting (boot_run SSE [Serve]) \<and>
   cacheReadOperation (boot_run SSE [Serve]) = Some (Inl ErrUsersNotReady) \<and>
   cacheReadOperation (boot_run HTTP [Serve, UsersWarmed]) = Some (Inl ErrChannelsNotReady) \<and>
   cacheReadOperation (boot_run HTTP [Serve, UsersWarmed, ChannelsWarmed]) = Some (Inr ())"
proof -
  have s: "SSE \<noteq> Stdio" "HTTP \<noteq> Stdio" by simp_all
  have a: "accepting (boot_run HTTP [Serve, UsersWarmed])"
    "accepting (boot_run HTTP [Serve, UsersWarmed, ChannelsWarmed])"
    by (simp_all add: boot_run_def boot_init_def)
  have n: "\<not> accepting (boot_run Stdio [Serve, UsersWarmed])"
    "\<not> accepting (boot_run Stdio [Serve, UsersWarmed, Serve, ChannelsWarmed])"
    by (simp_all add: boot_run_def boot_init_def IsReady_def)
  from startup_readiness_policy [of "[Serve, UsersWarmed]" SSE] n
  have 1: "\<not> accepting (boot_run Stdio [Serve, UsersWarmed, Serve])" by simp
  from startup_readiness_policy [of "[Serve, UsersWarmed, Serve, ChannelsWarmed]" SSE]
  have 2: "accepting (boot_run Stdio [Serve, UsersWarmed, Serve, ChannelsWarmed, Serve])"
    by simp
  from startup_readiness_policy [of "[Serve]" SSE] s
  have 3: "accepting (boot_run SSE [Serve])"
    and 4: "cacheReadOperation (boot_run SSE [Serve]) = Some (Inl ErrUsersNotReady)"
    by simp_all
  from startup_readiness_policy [of "[Serve, UsersWarmed]" HTTP] s a
  have 5: "cacheReadOperation (boot_run HTTP [Serve, UsersWarmed]) = Some (Inl ErrChannelsNotReady)"
    by simp
  from startup_readiness_policy [of "[Serve, UsersWarmed, ChannelsWarmed]" HTTP] s a
  have 6: "cacheReadOperation (boot_run HTTP [Serve, UsersWarmed, ChannelsWarmed]) = Some (Inr ())"
    by simp
  from 1 2 3 4 5 6 show ?thesis by (intro conjI)
qed

end
